theory Spec2Isabelle
  imports Complex_Main
begin

section \<open>Python values and failures\<close>

text \<open>
  The repository is Python. Its numbers (\<open>float\<close> and \<open>int\<close> parameters, coefficients and
  solver values) are modelled as exact reals, except where rounding decides a property
  (see the double-precision numbers below); its exceptions are values of \<open>py_error\<close>, and a
  computation that may raise has the type \<open>py_error + 'a\<close> with \<open>Inl\<close> the raised exception.
  A method that mutates its object takes the object and returns the new one; when it
  raises, only the exception is returned, and what Python leaves behind in the object
  (a problem that \<open>build_model\<close> had begun to fill) is not kept.
\<close>

datatype py_error = IndexError | KeyError | TypeError | ValueError | ZeroDivisionError

definition py_bind :: "py_error + 'a \<Rightarrow> ('a \<Rightarrow> py_error + 'b) \<Rightarrow> py_error + 'b" where
  "py_bind m f = (case m of Inl e \<Rightarrow> Inl e | Inr x \<Rightarrow> f x)"

text \<open>\<open>xs[i]\<close> for a non-negative index: out of range raises IndexError.\<close>

definition py_getitem :: "'a list \<Rightarrow> nat \<Rightarrow> py_error + 'a" where
  "py_getitem xs i = (if i < length xs then Inr (xs ! i) else Inl IndexError)"

text \<open>\<open>d[k]\<close> on a dict, kept as the list of its items: a missing key raises KeyError.\<close>

definition py_lookup :: "(string \<times> 'a) list \<Rightarrow> string \<Rightarrow> py_error + 'a" where
  "py_lookup d k = (case map_of d k of None \<Rightarrow> Inl KeyError | Some v \<Rightarrow> Inr v)"

text \<open>
  A list comprehension \<open>[f(i) for i in xs]\<close> whose body may raise: the first exception
  aborts the comprehension.
\<close>

fun py_listcomp :: "('a \<Rightarrow> py_error + 'b) \<Rightarrow> 'a list \<Rightarrow> py_error + 'b list" where
  "py_listcomp f [] = Inr []"
| "py_listcomp f (x # xs) =
     (case f x of
        Inl e \<Rightarrow> Inl e
      | Inr y \<Rightarrow> (case py_listcomp f xs of Inl e \<Rightarrow> Inl e | Inr ys \<Rightarrow> Inr (y # ys)))"

text \<open>\<open>x or default\<close> on an optional collection: None and the empty collection are falsy.\<close>

definition py_or :: "'a list option \<Rightarrow> 'a list \<Rightarrow> 'a list" where
  "py_or x d = (case x of None \<Rightarrow> d | Some xs \<Rightarrow> if xs = [] then d else xs)"

text \<open>\<open>a / b\<close>: a zero divisor raises ZeroDivisionError.\<close>

definition py_div :: "real \<Rightarrow> real \<Rightarrow> py_error + real" where
  "py_div a b = (if b = 0 then Inl ZeroDivisionError else Inr (a / b))"

text \<open>
  \<open>d[k] = v\<close> on a dict kept as the list of its items in insertion order: a key that is
  present keeps its place and takes the new value. A dict comprehension stores its items
  one after the other.
\<close>

fun dict_setitem :: "(string \<times> 'a) list \<Rightarrow> string \<Rightarrow> 'a \<Rightarrow> (string \<times> 'a) list" where
  "dict_setitem [] k v = [(k, v)]"
| "dict_setitem ((k', v') # d) k v =
     (if k' = k then (k, v) # d else (k', v') # dict_setitem d k v)"

definition py_dictcomp :: "(string \<times> 'a) list \<Rightarrow> (string \<times> 'a) list" where
  "py_dictcomp items = foldl (\<lambda>d (k, v). dict_setitem d k v) [] items"

text \<open>\<open>str(n)\<close> of a non-negative integer, as the f-strings of the variable names use it.\<close>

definition digit_char :: "nat \<Rightarrow> char" where
  "digit_char d = ''0123456789'' ! d"

fun str_nat :: "nat \<Rightarrow> string" where
  "str_nat n = (if n < 10 then [digit_char n] else str_nat (n div 10) @ [digit_char (n mod 10)])"

declare str_nat.simps [simp del]

section \<open>Double-precision numbers\<close>

text \<open>
  Where a property depends on rounding, Python's \<open>float\<close> is modelled as a finite binary
  number: \<open>F64 m e\<close> stands for \<open>m\<close> times 2 to the power \<open>e\<close>, with integers \<open>m\<close> and
  \<open>e\<close>. Sums, differences and products are formed exactly and then rounded to 53 significant
  bits, ties to even, as IEEE 754 binary64 does in its normal range (overflow, subnormal
  numbers, infinities and NaN are left out). Comparisons are exact.
\<close>

datatype f64 = F64 (mant: int) (expo: int)

definition f64_align :: "f64 \<Rightarrow> f64 \<Rightarrow> int \<times> int \<times> int" where
  "f64_align x y =
     (let e = min (expo x) (expo y)
      in (mant x * 2 ^ nat (expo x - e), mant y * 2 ^ nat (expo y - e), e))"

fun bit_length :: "nat \<Rightarrow> nat" where
  "bit_length n = (if n = 0 then 0 else Suc (bit_length (n div 2)))"

declare bit_length.simps [simp del]

definition f64_round :: "int \<Rightarrow> int \<Rightarrow> f64" where
  "f64_round m e =
     (let a = nat \<bar>m\<bar>; n = bit_length a in
      if n \<le> 53 then F64 m e
      else
        let s = n - 53; q = a div 2 ^ s; r = a mod 2 ^ s; half = 2 ^ (s - 1);
            q' = (if r > half \<or> (r = half \<and> odd q) then q + 1 else q)
        in F64 (sgn m * int q') (e + int s))"

definition f64_add :: "f64 \<Rightarrow> f64 \<Rightarrow> f64" where
  "f64_add x y = (case f64_align x y of (a, b, e) \<Rightarrow> f64_round (a + b) e)"

definition f64_sub :: "f64 \<Rightarrow> f64 \<Rightarrow> f64" where
  "f64_sub x y = (case f64_align x y of (a, b, e) \<Rightarrow> f64_round (a - b) e)"

definition f64_mul :: "f64 \<Rightarrow> f64 \<Rightarrow> f64" where
  "f64_mul x y = f64_round (mant x * mant y) (expo x + expo y)"

definition f64_le :: "f64 \<Rightarrow> f64 \<Rightarrow> bool" where
  "f64_le x y = (case f64_align x y of (a, b, e) \<Rightarrow> a \<le> b)"

definition f64_eq :: "f64 \<Rightarrow> f64 \<Rightarrow> bool" where
  "f64_eq x y = (case f64_align x y of (a, b, e) \<Rightarrow> a = b)"

definition f64_abs :: "f64 \<Rightarrow> f64" where
  "f64_abs x = F64 \<bar>mant x\<bar> (expo x)"

text \<open>\<open>max(0, x)\<close>: the first argument is returned unless the second is greater.\<close>

definition f64_max0 :: "f64 \<Rightarrow> f64" where
  "f64_max0 x = (if 0 < mant x then x else F64 0 0)"

text \<open>
  The real number that \<open>F64 m e\<close> stands for, and \<open>f64_reads x r\<close>: \<open>x\<close> is a double that
  Python reads from the decimal number \<open>r\<close>, that is, its mantissa has 53 bits and it is
  at most half a unit in the last place away from \<open>r\<close>.
\<close>

definition f64_real :: "f64 \<Rightarrow> real" where
  "f64_real x =
     (if 0 \<le> expo x then real_of_int (mant x) * 2 ^ nat (expo x)
      else real_of_int (mant x) / 2 ^ nat (- expo x))"

definition f64_reads :: "f64 \<Rightarrow> real \<Rightarrow> bool" where
  "f64_reads x r \<longleftrightarrow>
     bit_length (nat \<bar>mant x\<bar>) = 53 \<and> 2 * \<bar>f64_real x - r\<bar> \<le> f64_real (F64 1 (expo x))"

section \<open>The linear-programming objects built by the optimizers\<close>

text \<open>
  The optimizers build their models from the objects of the PuLP library, which is not part
  of the repository. Only what the optimizers use is modelled: a decision variable with its
  name and bounds, a linear expression as the ordered list of its terms (variable and
  coefficient; a variable that is absent has coefficient zero), a constraint (expression,
  operator, right-hand side, label) and a problem (direction, objective, ordered
  constraints). Every variable object is created once and occurs at most once in each
  expression of the source, so no terms are ever merged. A term is kept as the source
  writes it, also when its coefficient is zero, which denotes the same linear function.
\<close>

record LpVariable =
  var_name :: string
  lowBound :: "real option"
  upBound :: "real option"

type_synonym LpAffineExpression = "(LpVariable \<times> real) list"

datatype lp_direction = LpMaximize | LpMinimize

datatype lp_operator = LpConstraintLE | LpConstraintGE | LpConstraintEQ

record LpConstraint =
  con_expr :: LpAffineExpression
  con_operator :: lp_operator
  con_rhs :: real
  con_name :: string

record LpProblem =
  prob_name :: string
  prob_direction :: lp_direction
  objective :: LpAffineExpression
  objective_name :: string
  constraints :: "LpConstraint list"

text \<open>
  \<open>LpVariable(name, lowBound=0)\<close>. PuLP replaces each of the characters \<open>-+[] ->/\<close> in a
  name by an underscore; the name is kept here as the source forms it, and the names that
  the properties below spell out contain none of these characters.
\<close>

definition new_variable :: "string \<Rightarrow> LpVariable" where
  "new_variable n = \<lparr>var_name = n, lowBound = Some 0, upBound = None\<rparr>"

text \<open>\<open>c * v\<close>, \<open>e1 + e2\<close>, \<open>e1 - e2\<close> and \<open>lpSum\<close> on expressions.\<close>

definition lp_var :: "LpVariable \<Rightarrow> LpAffineExpression" where
  "lp_var v = [(v, 1)]"

definition lp_scale :: "real \<Rightarrow> LpVariable \<Rightarrow> LpAffineExpression" where
  "lp_scale c v = [(v, c)]"

definition lp_add :: "LpAffineExpression \<Rightarrow> LpAffineExpression \<Rightarrow> LpAffineExpression" where
  "lp_add e1 e2 = e1 @ e2"

definition lp_sub :: "LpAffineExpression \<Rightarrow> LpAffineExpression \<Rightarrow> LpAffineExpression" where
  "lp_sub e1 e2 = e1 @ map (\<lambda>(v, c). (v, - c)) e2"

definition lpSum :: "LpAffineExpression list \<Rightarrow> LpAffineExpression" where
  "lpSum es = concat es"

text \<open>\<open>LpProblem(name, direction)\<close>, \<open>model += objective, name\<close> and \<open>model += constraint, name\<close>.\<close>

definition new_problem :: "string \<Rightarrow> lp_direction \<Rightarrow> LpProblem" where
  "new_problem n d =
     \<lparr>prob_name = n, prob_direction = d, objective = [], objective_name = [], constraints = []\<rparr>"

definition set_objective :: "LpProblem \<Rightarrow> LpAffineExpression \<Rightarrow> string \<Rightarrow> LpProblem" where
  "set_objective m e n = m\<lparr>objective := e, objective_name := n\<rparr>"

definition add_constraint ::
  "LpProblem \<Rightarrow> LpAffineExpression \<Rightarrow> lp_operator \<Rightarrow> real \<Rightarrow> string \<Rightarrow> LpProblem" where
  "add_constraint m e ope b n =
     m\<lparr>constraints := constraints m @
        [\<lparr>con_expr = e, con_operator = ope, con_rhs = b, con_name = n\<rparr>]\<rparr>"

text \<open>
  The value of an expression under an assignment of values to the variables
  (\<open>value(expr)\<close>), and what it means for an assignment to satisfy a constraint exactly.
\<close>

definition lp_value :: "(LpVariable \<Rightarrow> real) \<Rightarrow> LpAffineExpression \<Rightarrow> real" where
  "lp_value val e = sum_list (map (\<lambda>(v, c). c * val v) e)"

definition constraint_holds :: "(LpVariable \<Rightarrow> real) \<Rightarrow> LpConstraint \<Rightarrow> bool" where
  "constraint_holds val c =
     (case con_operator c of
        LpConstraintLE \<Rightarrow> lp_value val (con_expr c) \<le> con_rhs c
      | LpConstraintGE \<Rightarrow> lp_value val (con_expr c) \<ge> con_rhs c
      | LpConstraintEQ \<Rightarrow> lp_value val (con_expr c) = con_rhs c)"

text \<open>
  The same value on doubles, as \<open>value(expr)\<close> adds it up: starting from zero, the product
  of value and coefficient of each term in turn.
\<close>

definition lp_value_f64 :: "(LpVariable \<Rightarrow> f64) \<Rightarrow> (LpVariable \<times> f64) list \<Rightarrow> f64" where
  "lp_value_f64 val e = foldl (\<lambda>s (v, c). f64_add s (f64_mul (val v) c)) (F64 0 0) e"

text \<open>
  The solver engine is external: \<open>model.solve()\<close> is a function from the problem to a
  status and an assignment of values to the variables (an engine that itself raises is
  not modelled). \<open>LpStatus\<close> names the status.
\<close>

datatype lp_status = StatusNotSolved | StatusOptimal | StatusInfeasible | StatusUnbounded
  | StatusUndefined

definition LpStatus :: "lp_status \<Rightarrow> string" where
  "LpStatus s =
     (case s of
        StatusNotSolved \<Rightarrow> ''Not Solved''
      | StatusOptimal \<Rightarrow> ''Optimal''
      | StatusInfeasible \<Rightarrow> ''Infeasible''
      | StatusUnbounded \<Rightarrow> ''Unbounded''
      | StatusUndefined \<Rightarrow> ''Undefined'')"

type_synonym engine = "LpProblem \<Rightarrow> lp_status \<times> (LpVariable \<Rightarrow> real)"

text \<open>The values a solution dictionary holds.\<close>

datatype pyval = PNone | PStr string | PNum real | PList "pyval list"
  | PDict "(string \<times> pyval) list" | PModel LpProblem

section \<open>models/production\_inventory.py\<close>

record ProductionInventoryOptimizer =
  production_costs :: "real list"
  storage_cost :: real
  demands :: "real list"
  num_periods :: nat
  pi_model :: "LpProblem option"
  production_vars :: "LpVariable list option"
  inventory_vars :: "LpVariable list option"
  pi_solution :: "(string \<times> pyval) list option"

text \<open>
  The constructor. An argument left out is \<open>None\<close>; \<open>storage_cost\<close> defaults to 8.0 at
  the call.
\<close>

definition ProductionInventoryOptimizer_init ::
  "real list option \<Rightarrow> real \<Rightarrow> real list option \<Rightarrow> ProductionInventoryOptimizer" where
  "ProductionInventoryOptimizer_init costs storage dem =
     (let d = py_or dem [100, 250, 190, 140, 220, 110] in
      \<lparr>production_costs = py_or costs [50, 45, 55, 48, 52, 50],
       storage_cost = storage,
       demands = d,
       num_periods = length d,
       pi_model = None,
       production_vars = None,
       inventory_vars = None,
       pi_solution = None\<rparr>)"

text \<open>The two variable lists of \<open>build_model\<close>, named \<open>x_{i+1}\<close> and \<open>I_{i+1}\<close>.\<close>

definition pi_production_vars :: "nat \<Rightarrow> LpVariable list" where
  "pi_production_vars n = map (\<lambda>i. new_variable (''x_'' @ str_nat (i + 1))) [0..<n]"

definition pi_inventory_vars :: "nat \<Rightarrow> LpVariable list" where
  "pi_inventory_vars n = map (\<lambda>i. new_variable (''I_'' @ str_nat (i + 1))) [0..<n]"

text \<open>The objective: total production cost plus total storage cost.\<close>

definition pi_objective ::
  "ProductionInventoryOptimizer \<Rightarrow> LpVariable list \<Rightarrow> LpVariable list
     \<Rightarrow> py_error + LpAffineExpression" where
  "pi_objective self pvars ivars =
     py_bind (py_listcomp (\<lambda>i.
         py_bind (py_getitem (production_costs self) i) (\<lambda>c.
         py_bind (py_getitem pvars i) (\<lambda>v. Inr (lp_scale c v))))
       [0..<num_periods self]) (\<lambda>total_production_cost.
     py_bind (py_listcomp (\<lambda>i.
         py_bind (py_getitem ivars i) (\<lambda>v. Inr (lp_scale (storage_cost self) v)))
       [0..<num_periods self]) (\<lambda>total_storage_cost.
     Inr (lp_add (lpSum total_production_cost) (lpSum total_storage_cost))))"

text \<open>The balance of period 1, and of period \<open>i + 1\<close> for \<open>i\<close> from 1.\<close>

definition pi_period_1_balance ::
  "ProductionInventoryOptimizer \<Rightarrow> LpVariable list \<Rightarrow> LpVariable list \<Rightarrow> LpProblem
     \<Rightarrow> py_error + LpProblem" where
  "pi_period_1_balance self pvars ivars m =
     py_bind (py_getitem pvars 0) (\<lambda>x.
     py_bind (py_getitem ivars 0) (\<lambda>inv.
     py_bind (py_getitem (demands self) 0) (\<lambda>d.
     Inr (add_constraint m (lp_sub (lp_var x) (lp_var inv)) LpConstraintEQ d
            ''Period_1_Balance''))))"

definition pi_period_balance ::
  "ProductionInventoryOptimizer \<Rightarrow> LpVariable list \<Rightarrow> LpVariable list \<Rightarrow> nat \<Rightarrow> LpProblem
     \<Rightarrow> py_error + LpProblem" where
  "pi_period_balance self pvars ivars i m =
     py_bind (py_getitem ivars (i - 1)) (\<lambda>prev.
     py_bind (py_getitem pvars i) (\<lambda>x.
     py_bind (py_getitem ivars i) (\<lambda>inv.
     py_bind (py_getitem (demands self) i) (\<lambda>d.
     Inr (add_constraint m (lp_sub (lp_add (lp_var prev) (lp_var x)) (lp_var inv))
            LpConstraintEQ d (''Period_'' @ str_nat (i + 1) @ ''_Balance''))))))"

text \<open>The loop \<open>for i in range(1, num_periods)\<close>, adding one constraint per round.\<close>

fun pi_balance_loop ::
  "ProductionInventoryOptimizer \<Rightarrow> LpVariable list \<Rightarrow> LpVariable list \<Rightarrow> nat list \<Rightarrow> LpProblem
     \<Rightarrow> py_error + LpProblem" where
  "pi_balance_loop self pvars ivars [] m = Inr m"
| "pi_balance_loop self pvars ivars (i # is) m =
     (case pi_period_balance self pvars ivars i m of
        Inl e \<Rightarrow> Inl e
      | Inr m' \<Rightarrow> pi_balance_loop self pvars ivars is m')"

definition ProductionInventoryOptimizer_build_model ::
  "ProductionInventoryOptimizer \<Rightarrow> py_error + ProductionInventoryOptimizer" where
  "ProductionInventoryOptimizer_build_model self =
     (let m0 = new_problem ''Production_Inventory_Optimization'' LpMinimize;
          pvars = pi_production_vars (num_periods self);
          ivars = pi_inventory_vars (num_periods self)
      in py_bind (pi_objective self pvars ivars) (\<lambda>total.
         py_bind (pi_period_1_balance self pvars ivars (set_objective m0 total ''Total_Cost''))
           (\<lambda>m1.
         py_bind (pi_balance_loop self pvars ivars [1..<num_periods self] m1) (\<lambda>m.
         Inr (self\<lparr>pi_model := Some m, production_vars := Some pvars,
                    inventory_vars := Some ivars\<rparr>)))))"

definition pi_failure :: "lp_status \<Rightarrow> (string \<times> pyval) list" where
  "pi_failure status =
     [(''status'', PStr (LpStatus status)),
      (''error'', PStr ''Optimization failed to find optimal solution'')]"

text \<open>
  \<open>solve\<close>: builds the model if there is none, runs the engine, and reads the solution
  off the variables. It returns the solution dictionary and the optimizer it leaves behind.
\<close>

definition ProductionInventoryOptimizer_solve ::
  "engine \<Rightarrow> ProductionInventoryOptimizer
     \<Rightarrow> py_error + ((string \<times> pyval) list \<times> ProductionInventoryOptimizer)" where
  "ProductionInventoryOptimizer_solve eng self0 =
     py_bind (if pi_model self0 = None then ProductionInventoryOptimizer_build_model self0
              else Inr self0) (\<lambda>self.
     case (pi_model self, production_vars self, inventory_vars self) of
       (Some m, Some pvars, Some ivars) \<Rightarrow>
         (case eng m of (status, val) \<Rightarrow>
            if LpStatus status = ''Optimal'' then
              py_bind (py_listcomp (\<lambda>i. py_bind (py_getitem pvars i) (\<lambda>v. Inr (val v)))
                         [0..<num_periods self]) (\<lambda>production_schedule.
              py_bind (py_listcomp (\<lambda>i. py_bind (py_getitem ivars i) (\<lambda>v. Inr (val v)))
                         [0..<num_periods self]) (\<lambda>inventory_schedule.
              let total_cost = lp_value val (objective m) in
              py_bind (py_listcomp (\<lambda>i.
                  py_bind (py_getitem (production_costs self) i) (\<lambda>c.
                  py_bind (py_getitem production_schedule i) (\<lambda>x. Inr (c * x))))
                [0..<num_periods self]) (\<lambda>production_cost_terms.
              py_bind (py_listcomp (\<lambda>i.
                  py_bind (py_getitem inventory_schedule i) (\<lambda>x. Inr (storage_cost self * x)))
                [0..<num_periods self]) (\<lambda>storage_cost_terms.
              let sol =
                [(''status'', PStr (LpStatus status)),
                 (''production_schedule'', PList (map PNum production_schedule)),
                 (''inventory_schedule'', PList (map PNum inventory_schedule)),
                 (''total_cost'', PNum total_cost),
                 (''production_cost'', PNum (sum_list production_cost_terms)),
                 (''storage_cost'', PNum (sum_list storage_cost_terms)),
                 (''model'', PModel m)]
              in Inr (sol, self\<lparr>pi_solution := Some sol\<rparr>)))))
            else
              Inr (pi_failure status, self\<lparr>pi_solution := Some (pi_failure status)\<rparr>))
     | _ \<Rightarrow> Inl TypeError)"

section \<open>models/bank\_loan.py\<close>

record BankLoanOptimizer =
  total_funds :: real
  interest_rates :: "real list"
  bad_debt_ratios :: "real list"
  loan_types :: "string list"
  bl_model :: "LpProblem option"
  bl_variables :: "LpVariable list option"
  bl_solution :: "(string \<times> pyval) list option"

text \<open>The constructor; \<open>total_funds\<close> defaults to 12,000,000 at the call.\<close>

definition BankLoanOptimizer_init ::
  "real \<Rightarrow> real list option \<Rightarrow> real list option \<Rightarrow> string list option \<Rightarrow> BankLoanOptimizer" where
  "BankLoanOptimizer_init funds rates ratios types =
     \<lparr>total_funds = funds,
      interest_rates = py_or rates [0.14, 0.13, 0.12, 0.125, 0.10],
      bad_debt_ratios = py_or ratios [0.10, 0.07, 0.03, 0.05, 0.02],
      loan_types = py_or types [''Personal'', ''Car'', ''Home'', ''Farm'', ''Commercial''],
      bl_model = None,
      bl_variables = None,
      bl_solution = None\<rparr>"

text \<open>\<open>_calculate_net_returns\<close>: interest on the good loans minus the bad debt.\<close>

definition calculate_net_returns :: "BankLoanOptimizer \<Rightarrow> py_error + real list" where
  "calculate_net_returns self =
     py_listcomp (\<lambda>i.
         py_bind (py_getitem (bad_debt_ratios self) i) (\<lambda>bad_debt.
         let good_loan_fraction = 1 - bad_debt in
         py_bind (py_getitem (interest_rates self) i) (\<lambda>rate.
         let interest_earned = rate * good_loan_fraction in
         py_bind (py_getitem (bad_debt_ratios self) i) (\<lambda>bad_debt'.
         Inr (interest_earned - bad_debt')))))
       [0..<length (loan_types self)]"

text \<open>
  The same method on doubles; its arguments are the three attributes it reads
  (\<open>interest_rates\<close>, \<open>bad_debt_ratios\<close>, \<open>loan_types\<close>). The integer 1 is the double 1.0.
\<close>

definition calculate_net_returns_f64 ::
  "f64 list \<Rightarrow> f64 list \<Rightarrow> string list \<Rightarrow> py_error + f64 list" where
  "calculate_net_returns_f64 rates ratios types =
     py_listcomp (\<lambda>i.
         py_bind (py_getitem ratios i) (\<lambda>bad_debt.
         let good_loan_fraction = f64_sub (F64 1 0) bad_debt in
         py_bind (py_getitem rates i) (\<lambda>rate.
         let interest_earned = f64_mul rate good_loan_fraction in
         py_bind (py_getitem ratios i) (\<lambda>bad_debt'.
         Inr (f64_sub interest_earned bad_debt')))))
       [0..<length types]"

definition bl_new_variables :: "BankLoanOptimizer \<Rightarrow> LpVariable list" where
  "bl_new_variables self = map (\<lambda>loan_type. new_variable (''x_'' @ loan_type)) (loan_types self)"

text \<open>The objective and the five constraints of \<open>build_model\<close>, in the order of the source.\<close>

definition bl_objective ::
  "BankLoanOptimizer \<Rightarrow> LpVariable list \<Rightarrow> py_error + LpAffineExpression" where
  "bl_objective self vars =
     py_bind (calculate_net_returns self) (\<lambda>net_returns.
     py_bind (py_listcomp (\<lambda>i.
         py_bind (py_getitem net_returns i) (\<lambda>r.
         py_bind (py_getitem vars i) (\<lambda>v. Inr (lp_scale r v))))
       [0..<length (loan_types self)]) (\<lambda>terms.
     Inr (lpSum terms)))"

definition bl_total_funds_constraint ::
  "BankLoanOptimizer \<Rightarrow> LpVariable list \<Rightarrow> LpProblem \<Rightarrow> LpProblem" where
  "bl_total_funds_constraint self vars m =
     add_constraint m (lpSum (map lp_var vars)) LpConstraintLE (total_funds self)
       ''Total_Funds_Constraint''"

definition bl_minimum_allocation :: "LpVariable list \<Rightarrow> LpProblem \<Rightarrow> LpProblem" where
  "bl_minimum_allocation vars m =
     add_constraint m (lpSum (map lp_var vars)) LpConstraintGE 0 ''Minimum_Allocation''"

definition bl_farm_commercial_minimum ::
  "LpVariable list \<Rightarrow> LpProblem \<Rightarrow> py_error + LpProblem" where
  "bl_farm_commercial_minimum vars m =
     py_bind (py_getitem vars 0) (\<lambda>v0.
     py_bind (py_getitem vars 1) (\<lambda>v1.
     py_bind (py_getitem vars 2) (\<lambda>v2.
     py_bind (py_getitem vars 3) (\<lambda>v3.
     py_bind (py_getitem vars 4) (\<lambda>v4.
     Inr (add_constraint m
            (lp_sub (lp_sub (lp_add (lp_add (lp_scale 0.4 v0) (lp_scale 0.4 v1))
               (lp_scale 0.4 v2)) (lp_scale 0.6 v3)) (lp_scale 0.6 v4))
            LpConstraintLE 0 ''Farm_Commercial_Minimum''))))))"

definition bl_home_loan_minimum ::
  "LpVariable list \<Rightarrow> LpProblem \<Rightarrow> py_error + LpProblem" where
  "bl_home_loan_minimum vars m =
     py_bind (py_getitem vars 0) (\<lambda>v0.
     py_bind (py_getitem vars 1) (\<lambda>v1.
     py_bind (py_getitem vars 2) (\<lambda>v2.
     Inr (add_constraint m
            (lp_sub (lp_add (lp_scale 0.5 v0) (lp_scale 0.5 v1)) (lp_scale 0.5 v2))
            LpConstraintLE 0 ''Home_Loan_Minimum''))))"

definition bl_bad_debt_limit ::
  "BankLoanOptimizer \<Rightarrow> LpVariable list \<Rightarrow> LpProblem \<Rightarrow> py_error + LpProblem" where
  "bl_bad_debt_limit self vars m =
     py_bind (py_listcomp (\<lambda>i.
         py_bind (py_getitem (bad_debt_ratios self) i) (\<lambda>b.
         py_bind (py_getitem vars i) (\<lambda>v. Inr (lp_scale (b - 0.04) v))))
       [0..<length (loan_types self)]) (\<lambda>terms.
     Inr (add_constraint m (lpSum terms) LpConstraintLE 0 ''Bad_Debt_Limit''))"

definition BankLoanOptimizer_build_model :: "BankLoanOptimizer \<Rightarrow> py_error + BankLoanOptimizer" where
  "BankLoanOptimizer_build_model self =
     (let m0 = new_problem ''Bank_Loan_Portfolio_Optimization'' LpMaximize;
          vars = bl_new_variables self
      in py_bind (bl_objective self vars) (\<lambda>total.
         let m1 = set_objective m0 total ''Total_Net_Return'';
             m2 = bl_total_funds_constraint self vars m1;
             m3 = bl_minimum_allocation vars m2
         in py_bind (bl_farm_commercial_minimum vars m3) (\<lambda>m4.
            py_bind (bl_home_loan_minimum vars m4) (\<lambda>m5.
            py_bind (bl_bad_debt_limit self vars m5) (\<lambda>m.
            Inr (self\<lparr>bl_model := Some m, bl_variables := Some vars\<rparr>))))))"

definition bl_failure :: "lp_status \<Rightarrow> (string \<times> pyval) list" where
  "bl_failure status =
     [(''status'', PStr (LpStatus status)),
      (''allocations'', PNone),
      (''error'', PStr ''Optimization failed to find optimal solution'')]"

text \<open>
  The return on investment of \<open>solve\<close>: the quotient is taken only when something was
  allocated.
\<close>

definition bl_roi :: "real \<Rightarrow> real \<Rightarrow> py_error + real" where
  "bl_roi objective_value total_allocated =
     (if total_allocated > 0 then py_div objective_value total_allocated else Inr 0)"

definition BankLoanOptimizer_solve ::
  "engine \<Rightarrow> BankLoanOptimizer \<Rightarrow> py_error + ((string \<times> pyval) list \<times> BankLoanOptimizer)" where
  "BankLoanOptimizer_solve eng self0 =
     py_bind (if bl_model self0 = None then BankLoanOptimizer_build_model self0
              else Inr self0) (\<lambda>self.
     case (bl_model self, bl_variables self) of
       (Some m, Some vars) \<Rightarrow>
         (case eng m of (status, val) \<Rightarrow>
            if LpStatus status = ''Optimal'' then
              py_bind (py_listcomp (\<lambda>i.
                  py_bind (py_getitem (loan_types self) i) (\<lambda>loan_type.
                  py_bind (py_getitem vars i) (\<lambda>v. Inr (loan_type, val v))))
                [0..<length (loan_types self)]) (\<lambda>items.
              let allocations = py_dictcomp items;
                  total_allocated = sum_list (map snd allocations);
                  objective_value = lp_value val (objective m)
              in py_bind (bl_roi objective_value total_allocated) (\<lambda>roi.
              let sol =
                [(''status'', PStr (LpStatus status)),
                 (''allocations'', PDict (map (\<lambda>(k, x). (k, PNum x)) allocations)),
                 (''total_allocated'', PNum total_allocated),
                 (''net_return'', PNum objective_value),
                 (''roi_percentage'', PNum (roi * 100)),
                 (''model'', PModel m)]
              in Inr (sol, self\<lparr>bl_solution := Some sol\<rparr>)))
            else
              Inr (bl_failure status, self\<lparr>bl_solution := Some (bl_failure status)\<rparr>))
     | _ \<Rightarrow> Inl TypeError)"

section \<open>models/oil\_refining.py\<close>

text \<open>
  The dictionaries of the refinery model (octane numbers, demand limits, profit margins,
  and the variables by source and product) are kept as the lists of their items.
\<close>

record OilRefiningOptimizer =
  crude_capacity :: real
  cracker_capacity :: real
  octane_numbers :: "(string \<times> real) list"
  demand_limits :: "(string \<times> real) list"
  profit_margins :: "(string \<times> real) list"
  oil_model :: "LpProblem option"
  oil_variables :: "(string \<times> (string \<times> LpVariable) list) list option"
  oil_solution :: "(string \<times> pyval) list option"

text \<open>
  The constructor; \<open>crude_capacity\<close> defaults to 1,500,000 and \<open>cracker_capacity\<close> to
  200,000 at the call.
\<close>

definition OilRefiningOptimizer_init ::
  "real \<Rightarrow> real \<Rightarrow> (string \<times> real) list option \<Rightarrow> (string \<times> real) list option
     \<Rightarrow> (string \<times> real) list option \<Rightarrow> OilRefiningOptimizer" where
  "OilRefiningOptimizer_init crude cracker octane limits margins =
     \<lparr>crude_capacity = crude,
      cracker_capacity = cracker,
      octane_numbers = py_or octane
        [(''feedstock'', 82), (''cracker'', 98), (''regular'', 87), (''premium'', 89),
         (''super'', 92)],
      demand_limits = py_or limits
        [(''regular'', 50000), (''premium'', 30000), (''super'', 40000)],
      profit_margins = py_or margins
        [(''regular'', 6.70), (''premium'', 7.20), (''super'', 8.10)],
      oil_model = None,
      oil_variables = None,
      oil_solution = None\<rparr>"

definition oil_new_variables :: "(string \<times> (string \<times> LpVariable) list) list" where
  "oil_new_variables =
     [(''feedstock'',
         [(''regular'', new_variable ''x_feed_regular''),
          (''premium'', new_variable ''x_feed_premium''),
          (''super'', new_variable ''x_feed_super'')]),
      (''cracker'',
         [(''regular'', new_variable ''x_crack_regular''),
          (''premium'', new_variable ''x_crack_premium''),
          (''super'', new_variable ''x_crack_super'')])]"

text \<open>\<open>self.variables[source][product]\<close>.\<close>

definition oil_var ::
  "(string \<times> (string \<times> LpVariable) list) list \<Rightarrow> string \<Rightarrow> string \<Rightarrow> py_error + LpVariable" where
  "oil_var vars source product = py_bind (py_lookup vars source) (\<lambda>d. py_lookup d product)"

text \<open>\<open>c * e\<close> for a number and an expression.\<close>

definition lp_scale_expr :: "real \<Rightarrow> LpAffineExpression \<Rightarrow> LpAffineExpression" where
  "lp_scale_expr k e = map (\<lambda>(v, c). (v, k * c)) e"

definition oil_products :: "string list" where
  "oil_products = [''regular'', ''premium'', ''super'']"

definition oil_total_profit ::
  "OilRefiningOptimizer \<Rightarrow> (string \<times> (string \<times> LpVariable) list) list
     \<Rightarrow> py_error + LpAffineExpression" where
  "oil_total_profit self vars =
     py_bind (py_listcomp (\<lambda>product.
         py_bind (py_lookup (profit_margins self) product) (\<lambda>margin.
         py_bind (oil_var vars ''feedstock'' product) (\<lambda>f.
         py_bind (oil_var vars ''cracker'' product) (\<lambda>c.
         Inr (lp_scale_expr margin (lp_add (lp_var f) (lp_var c)))))))
       oil_products) (\<lambda>terms.
     Inr (lpSum terms))"

definition oil_total_of ::
  "(string \<times> (string \<times> LpVariable) list) list \<Rightarrow> string \<Rightarrow> py_error + LpAffineExpression" where
  "oil_total_of vars source =
     py_bind (py_listcomp (\<lambda>p. py_bind (oil_var vars source p) (\<lambda>v. Inr (lp_var v)))
       oil_products) (\<lambda>terms.
     Inr (lpSum terms))"

text \<open>The loop over the products that adds the demand limits.\<close>

fun oil_demand_loop ::
  "OilRefiningOptimizer \<Rightarrow> (string \<times> (string \<times> LpVariable) list) list \<Rightarrow> string list
     \<Rightarrow> LpProblem \<Rightarrow> py_error + LpProblem" where
  "oil_demand_loop self vars [] m = Inr m"
| "oil_demand_loop self vars (product # ps) m =
     py_bind (oil_var vars ''feedstock'' product) (\<lambda>f.
     py_bind (oil_var vars ''cracker'' product) (\<lambda>c.
     py_bind (py_lookup (demand_limits self) product) (\<lambda>limit.
     oil_demand_loop self vars ps
       (add_constraint m (lp_add (lp_var f) (lp_var c)) LpConstraintLE limit
          (''Demand_'' @ product)))))"

text \<open>The three octane constraints, with the coefficients the source writes.\<close>

definition oil_octane_constraint ::
  "(string \<times> (string \<times> LpVariable) list) list \<Rightarrow> string \<Rightarrow> real \<Rightarrow> real \<Rightarrow> string
     \<Rightarrow> LpProblem \<Rightarrow> py_error + LpProblem" where
  "oil_octane_constraint vars product a b label m =
     py_bind (oil_var vars ''feedstock'' product) (\<lambda>f.
     py_bind (oil_var vars ''cracker'' product) (\<lambda>c.
     Inr (add_constraint m (lp_add (lp_scale a f) (lp_scale b c)) LpConstraintGE 0 label)))"

definition OilRefiningOptimizer_build_model ::
  "OilRefiningOptimizer \<Rightarrow> py_error + OilRefiningOptimizer" where
  "OilRefiningOptimizer_build_model self =
     (let m0 = new_problem ''Oil_Refining_Optimization'' LpMaximize;
          vars = oil_new_variables
      in py_bind (oil_total_profit self vars) (\<lambda>total_profit.
         let m1 = set_objective m0 total_profit ''Total_Profit'' in
         py_bind (oil_total_of vars ''feedstock'') (\<lambda>total_feedstock.
         py_bind (oil_total_of vars ''cracker'') (\<lambda>total_cracker.
         let m2 = add_constraint m1
                    (lp_add (lp_scale_expr 5 total_feedstock) (lp_scale_expr 10 total_cracker))
                    LpConstraintLE (crude_capacity self) ''Crude_Capacity'';
             m3 = add_constraint m2 (lp_scale_expr 2 total_cracker)
                    LpConstraintLE (cracker_capacity self) ''Cracker_Capacity''
         in py_bind (oil_demand_loop self vars oil_products m3) (\<lambda>m4.
            py_bind (oil_octane_constraint vars ''regular'' (- 5) 11 ''Octane_Regular'' m4) (\<lambda>m5.
            py_bind (oil_octane_constraint vars ''premium'' (- 7) 9 ''Octane_Premium'' m5) (\<lambda>m6.
            py_bind (oil_octane_constraint vars ''super'' (- 10) 6 ''Octane_Super'' m6) (\<lambda>m.
            Inr (self\<lparr>oil_model := Some m, oil_variables := Some vars\<rparr>)))))))))"

definition oil_failure :: "lp_status \<Rightarrow> (string \<times> pyval) list" where
  "oil_failure status =
     [(''status'', PStr (LpStatus status)),
      (''error'', PStr ''Optimization failed to find optimal solution'')]"

definition OilRefiningOptimizer_solve ::
  "engine \<Rightarrow> OilRefiningOptimizer
     \<Rightarrow> py_error + ((string \<times> pyval) list \<times> OilRefiningOptimizer)" where
  "OilRefiningOptimizer_solve eng self0 =
     py_bind (if oil_model self0 = None then OilRefiningOptimizer_build_model self0
              else Inr self0) (\<lambda>self.
     case (oil_model self, oil_variables self) of
       (Some m, Some vars) \<Rightarrow>
         (case eng m of (status, val) \<Rightarrow>
            if LpStatus status = ''Optimal'' then
              py_bind (py_listcomp (\<lambda>product.
                  py_bind (oil_var vars ''feedstock'' product) (\<lambda>f.
                  py_bind (oil_var vars ''cracker'' product) (\<lambda>c.
                  py_bind (oil_var vars ''feedstock'' product) (\<lambda>f'.
                  py_bind (oil_var vars ''cracker'' product) (\<lambda>c'.
                  Inr (product,
                       PDict [(''feedstock'', PNum (val f)),
                              (''cracker'', PNum (val c)),
                              (''total'', PNum (val f' + val c'))]))))))
                oil_products) (\<lambda>items.
              let production = py_dictcomp items;
                  total_profit = lp_value val (objective m);
                  sol =
                    [(''status'', PStr (LpStatus status)),
                     (''production'', PDict production),
                     (''total_profit'', PNum total_profit),
                     (''daily_profit'', PNum total_profit),
                     (''model'', PModel m)]
              in Inr (sol, self\<lparr>oil_solution := Some sol\<rparr>))
            else
              Inr (oil_failure status, self\<lparr>oil_solution := Some (oil_failure status)\<rparr>))
     | _ \<Rightarrow> Inl TypeError)"

section \<open>utils/validation.py\<close>

definition calculate_constraint_violations ::
  "real \<Rightarrow> real \<Rightarrow> string \<Rightarrow> real \<Rightarrow> py_error + (bool \<times> real)" where
  "calculate_constraint_violations actual_value required_value constraint_type tolerance =
     (if constraint_type = ''<='' then
        Inr (actual_value \<le> required_value + tolerance, max 0 (actual_value - required_value))
      else if constraint_type = ''>='' then
        Inr (actual_value \<ge> required_value - tolerance, max 0 (required_value - actual_value))
      else if constraint_type = ''=='' then
        Inr (\<bar>actual_value - required_value\<bar> \<le> tolerance, \<bar>actual_value - required_value\<bar>)
      else Inl ValueError)"

text \<open>The same function on double-precision numbers, with the rounding of each operation.\<close>

definition calculate_constraint_violations_f64 ::
  "f64 \<Rightarrow> f64 \<Rightarrow> string \<Rightarrow> f64 \<Rightarrow> py_error + (bool \<times> f64)" where
  "calculate_constraint_violations_f64 actual_value required_value constraint_type tolerance =
     (if constraint_type = ''<='' then
        Inr (f64_le actual_value (f64_add required_value tolerance),
             f64_max0 (f64_sub actual_value required_value))
      else if constraint_type = ''>='' then
        Inr (f64_le (f64_sub required_value tolerance) actual_value,
             f64_max0 (f64_sub required_value actual_value))
      else if constraint_type = ''=='' then
        Inr (f64_le (f64_abs (f64_sub actual_value required_value)) tolerance,
             f64_abs (f64_sub actual_value required_value))
      else Inl ValueError)"

text \<open>
  \<open>validate_equal_length(*lists, names=None)\<close>, with its two messages. \<open>repr_lengths\<close>
  prints a list of lengths as Python does.
\<close>

fun join :: "string \<Rightarrow> string list \<Rightarrow> string" where
  "join sep [] = []"
| "join sep [x] = x"
| "join sep (x # y # ys) = x @ sep @ join sep (y # ys)"

definition repr_lengths :: "nat list \<Rightarrow> string" where
  "repr_lengths ns = ''['' @ join '', '' (map str_nat ns) @ '']''"

definition validate_equal_length :: "'a list list \<Rightarrow> string list option \<Rightarrow> bool \<times> string" where
  "validate_equal_length lsts names =
     (if lsts = [] then (True, [])
      else
        let lengths = map length lsts in
        if length (remdups lengths) \<noteq> 1 then
          (case names of
             Some ns \<Rightarrow>
               if ns \<noteq> [] \<and> length ns = length lsts then
                 (False, ''All lists must have equal length: '' @
                    join '', '' (map (\<lambda>(n, lst). n @ ''='' @ str_nat (length lst)) (zip ns lsts)))
               else (False, ''All lists must have equal length, got lengths: '' @ repr_lengths lengths)
           | None \<Rightarrow>
               (False, ''All lists must have equal length, got lengths: '' @ repr_lengths lengths))
        else (True, []))"

section \<open>Rows the specification expects\<close>

text \<open>
  The balance constraint of period \<open>i + 1\<close> (for \<open>i\<close> from 1) as the specification
  writes it: the inventory carried over from the period before, plus production, minus
  the inventory left, equals demand.
\<close>

definition pi_balance_row :: "LpVariable list \<Rightarrow> LpVariable list \<Rightarrow> real list \<Rightarrow> nat \<Rightarrow> LpConstraint" where
  "pi_balance_row pvars ivars dem i =
     \<lparr>con_expr = [(ivars ! (i - 1), 1), (pvars ! i, 1), (ivars ! i, - 1)],
      con_operator = LpConstraintEQ, con_rhs = dem ! i,
      con_name = ''Period_'' @ str_nat (i + 1) @ ''_Balance''\<rparr>"

section \<open>Closed forms of the models built\<close>

text \<open>
  The inputs for which \<open>BankLoanOptimizer.build_model\<close> finds every index it reads, and the
  model it is shown to build for them (lemma \<open>bl_build_model_eq\<close> below).
\<close>

definition bl_inputs_fit :: "BankLoanOptimizer \<Rightarrow> bool" where
  "bl_inputs_fit self \<longleftrightarrow>
     5 \<le> length (loan_types self)
     \<and> length (loan_types self) \<le> length (interest_rates self)
     \<and> length (loan_types self) \<le> length (bad_debt_ratios self)"

definition bl_model_of :: "BankLoanOptimizer \<Rightarrow> LpProblem" where
  "bl_model_of self =
     (let vars = bl_new_variables self; n = length (loan_types self) in
      \<lparr>prob_name = ''Bank_Loan_Portfolio_Optimization'',
       prob_direction = LpMaximize,
       objective =
         map (\<lambda>i. (vars ! i, interest_rates self ! i * (1 - bad_debt_ratios self ! i)
                            - bad_debt_ratios self ! i)) [0..<n],
       objective_name = ''Total_Net_Return'',
       constraints =
         [\<lparr>con_expr = map (\<lambda>v. (v, 1)) vars, con_operator = LpConstraintLE,
           con_rhs = total_funds self, con_name = ''Total_Funds_Constraint''\<rparr>,
          \<lparr>con_expr = map (\<lambda>v. (v, 1)) vars, con_operator = LpConstraintGE,
           con_rhs = 0, con_name = ''Minimum_Allocation''\<rparr>,
          \<lparr>con_expr = [(vars ! 0, 0.4), (vars ! 1, 0.4), (vars ! 2, 0.4), (vars ! 3, - 0.6),
                       (vars ! 4, - 0.6)],
           con_operator = LpConstraintLE, con_rhs = 0, con_name = ''Farm_Commercial_Minimum''\<rparr>,
          \<lparr>con_expr = [(vars ! 0, 0.5), (vars ! 1, 0.5), (vars ! 2, - 0.5)],
           con_operator = LpConstraintLE, con_rhs = 0, con_name = ''Home_Loan_Minimum''\<rparr>,
          \<lparr>con_expr = map (\<lambda>i. (vars ! i, bad_debt_ratios self ! i - 0.04)) [0..<n],
           con_operator = LpConstraintLE, con_rhs = 0, con_name = ''Bad_Debt_Limit''\<rparr>]\<rparr>)"

text \<open>
  The same for \<open>ProductionInventoryOptimizer.build_model\<close> (lemma \<open>pi_build_model_eq\<close>)
  and \<open>OilRefiningOptimizer.build_model\<close> (lemma \<open>oil_build_model_eq\<close>).
\<close>

definition pi_inputs_fit :: "ProductionInventoryOptimizer \<Rightarrow> bool" where
  "pi_inputs_fit self \<longleftrightarrow>
     0 < num_periods self
     \<and> num_periods self \<le> length (production_costs self)
     \<and> num_periods self \<le> length (demands self)"

definition pi_model_of :: "ProductionInventoryOptimizer \<Rightarrow> LpProblem" where
  "pi_model_of self =
     (let n = num_periods self; pvars = pi_production_vars n; ivars = pi_inventory_vars n in
      \<lparr>prob_name = ''Production_Inventory_Optimization'',
       prob_direction = LpMinimize,
       objective =
         map (\<lambda>i. (pvars ! i, production_costs self ! i)) [0..<n]
         @ map (\<lambda>i. (ivars ! i, storage_cost self)) [0..<n],
       objective_name = ''Total_Cost'',
       constraints =
         \<lparr>con_expr = [(pvars ! 0, 1), (ivars ! 0, - 1)], con_operator = LpConstraintEQ,
          con_rhs = demands self ! 0, con_name = ''Period_1_Balance''\<rparr>
         # map (pi_balance_row pvars ivars (demands self)) [1..<n]\<rparr>)"

definition oil_inputs_fit :: "OilRefiningOptimizer \<Rightarrow> bool" where
  "oil_inputs_fit self \<longleftrightarrow>
     list_all (\<lambda>p. map_of (profit_margins self) p \<noteq> None) oil_products
     \<and> list_all (\<lambda>p. map_of (demand_limits self) p \<noteq> None) oil_products"

definition oil_row :: "string \<Rightarrow> string \<Rightarrow> real \<Rightarrow> real \<Rightarrow> lp_operator \<Rightarrow> real \<Rightarrow> LpConstraint" where
  "oil_row label product a b ope rhs =
     \<lparr>con_expr = [(new_variable (''x_feed_'' @ product), a),
                  (new_variable (''x_crack_'' @ product), b)],
      con_operator = ope, con_rhs = rhs, con_name = label\<rparr>"

definition oil_model_of :: "OilRefiningOptimizer \<Rightarrow> LpProblem" where
  "oil_model_of self =
     \<lparr>prob_name = ''Oil_Refining_Optimization'',
      prob_direction = LpMaximize,
      objective =
        concat (map (\<lambda>p. [(new_variable (''x_feed_'' @ p), the (map_of (profit_margins self) p)),
                           (new_variable (''x_crack_'' @ p), the (map_of (profit_margins self) p))])
                  oil_products),
      objective_name = ''Total_Profit'',
      constraints =
        [\<lparr>con_expr = map (\<lambda>p. (new_variable (''x_feed_'' @ p), 5)) oil_products
                     @ map (\<lambda>p. (new_variable (''x_crack_'' @ p), 10)) oil_products,
          con_operator = LpConstraintLE, con_rhs = crude_capacity self,
          con_name = ''Crude_Capacity''\<rparr>,
         \<lparr>con_expr = map (\<lambda>p. (new_variable (''x_crack_'' @ p), 2)) oil_products,
          con_operator = LpConstraintLE, con_rhs = cracker_capacity self,
          con_name = ''Cracker_Capacity''\<rparr>]
        @ map (\<lambda>p. oil_row (''Demand_'' @ p) p 1 1 LpConstraintLE
                      (the (map_of (demand_limits self) p))) oil_products
        @ [oil_row ''Octane_Regular'' ''regular'' (- 5) 11 LpConstraintGE 0,
           oil_row ''Octane_Premium'' ''premium'' (- 7) 9 LpConstraintGE 0,
           oil_row ''Octane_Super'' ''super'' (- 10) 6 LpConstraintGE 0]\<rparr>"

text \<open>
  An assignment is feasible for a problem when it satisfies every constraint and keeps
  every variable within its bounds.
\<close>

definition within_bounds :: "(LpVariable \<Rightarrow> real) \<Rightarrow> LpVariable \<Rightarrow> bool" where
  "within_bounds val v \<longleftrightarrow>
     (case lowBound v of None \<Rightarrow> True | Some l \<Rightarrow> l \<le> val v)
     \<and> (case upBound v of None \<Rightarrow> True | Some u \<Rightarrow> val v \<le> u)"

definition lp_feasible :: "(LpVariable \<Rightarrow> real) \<Rightarrow> LpProblem \<Rightarrow> LpVariable list \<Rightarrow> bool" where
  "lp_feasible val m vars \<longleftrightarrow>
     list_all (constraint_holds val) (constraints m) \<and> list_all (within_bounds val) vars"

text \<open>Whether a value of a solution dictionary is, or holds, a number.\<close>

fun has_number :: "pyval \<Rightarrow> bool" where
  "has_number PNone = False"
| "has_number (PStr s) = False"
| "has_number (PNum x) = True"
| "has_number (PList xs) = list_ex has_number xs"
| "has_number (PDict d) = list_ex (\<lambda>kv. has_number (snd kv)) d"
| "has_number (PModel m) = False"

section \<open>Inputs used in the examples\<close>

text \<open>
  Engines that answer every problem with a fixed status and give every variable the same
  value. They stand for what an engine may answer; nothing is assumed about them.
\<close>

definition constant_engine :: "lp_status \<Rightarrow> real \<Rightarrow> engine" where
  "constant_engine status x m = (status, (\<lambda>v. x))"

text \<open>
  A loan portfolio with a negative capital and six interest rates for five loan types and
  five bad-debt ratios.
\<close>

definition mismatched_optimizer :: BankLoanOptimizer where
  "mismatched_optimizer =
     BankLoanOptimizer_init (- 1000) (Some [0.1, 0.1, 0.1, 0.1, 0.1, 0.1]) None None"

text \<open>\<open>solve()[key]\<close> read off what \<open>solve\<close> returns, when it returns.\<close>

definition solution_get ::
  "py_error + ((string \<times> pyval) list \<times> 'a) \<Rightarrow> string \<Rightarrow> py_error + pyval option" where
  "solution_get r k = (case r of Inl e \<Rightarrow> Inl e | Inr p \<Rightarrow> Inr (map_of (fst p) k))"

text \<open>
  The two-category portfolio of the specification's scenario, with loan types named A and
  B, and the assignment that puts the whole capital on its second category. Then the
  doubles that Python reads from the interest rates 0.15 and 0.14 and from the bad-debt
  ratios 0.08 and 0.05, and the same assignment on doubles.
\<close>

definition two_category_optimizer :: BankLoanOptimizer where
  "two_category_optimizer =
     BankLoanOptimizer_init 1000000 (Some [0.15, 0.14]) (Some [0.08, 0.05])
       (Some [''A'', ''B''])"

definition all_to_second :: "LpVariable \<Rightarrow> real" where
  "all_to_second v = (if var_name v = ''x_B'' then 1000000 else 0)"

definition two_category_rates_f64 :: "f64 list" where
  "two_category_rates_f64 = [F64 5404319552844595 (- 55), F64 5044031582654956 (- 55)]"

definition two_category_ratios_f64 :: "f64 list" where
  "two_category_ratios_f64 = [F64 5764607523034235 (- 56), F64 7205759403792794 (- 57)]"

definition all_to_second_f64 :: "LpVariable \<Rightarrow> f64" where
  "all_to_second_f64 v = (if var_name v = ''x_B'' then F64 1000000 0 else F64 0 0)"

section \<open>Properties\<close>

subsection \<open>List comprehensions\<close>

lemma py_listcomp_Inr:
  "(\<And>x. x \<in> set xs \<Longrightarrow> f x = Inr (g x)) \<Longrightarrow> py_listcomp f xs = Inr (map g xs)"
  by (induction xs) simp_all

lemma py_listcomp_Inl:
  "py_listcomp f xs = Inl e \<Longrightarrow> \<exists>x \<in> set xs. f x = Inl e"
  by (induction xs) (auto split: sum.splits)

lemma py_listcomp_fails:
  assumes "x \<in> set xs" and "f x = Inl e"
    and "\<And>y. y \<in> set xs \<Longrightarrow> f y = Inl e \<or> (\<exists>z. f y = Inr z)"
  shows "py_listcomp f xs = Inl e"
  using assms
proof (induction xs)
  case Nil
  then show ?case by simp
next
  case (Cons a xs)
  from Cons.prems(3) [of a] consider "f a = Inl e" | z where "f a = Inr z" by auto
  then show ?case
  proof cases
    case 1
    then show ?thesis by simp
  next
    case 2
    with Cons.prems(2) have "x \<noteq> a" by auto
    with Cons.prems(1) have "x \<in> set xs" by simp
    from Cons.IH [OF this Cons.prems(2)] Cons.prems(3) have "py_listcomp f xs = Inl e" by simp
    with 2 show ?thesis by simp
  qed
qed

subsection \<open>The production and inventory model\<close>

lemma length_pi_vars [simp]:
  "length (pi_production_vars n) = n" "length (pi_inventory_vars n) = n"
  by (simp_all add: pi_production_vars_def pi_inventory_vars_def)

lemma pi_objective_Inr:
  assumes "num_periods self \<le> length (production_costs self)"
    and "length pvars = num_periods self" and "length ivars = num_periods self"
  shows "\<exists>e. pi_objective self pvars ivars = Inr e"
proof -
  have a: "py_listcomp (\<lambda>i. py_bind (py_getitem (production_costs self) i) (\<lambda>c.
         py_bind (py_getitem pvars i) (\<lambda>v. Inr (lp_scale c v)))) [0..<num_periods self]
        = Inr (map (\<lambda>i. lp_scale (production_costs self ! i) (pvars ! i)) [0..<num_periods self])"
    using assms by (intro py_listcomp_Inr) (simp add: py_bind_def py_getitem_def)
  have b: "py_listcomp (\<lambda>i. py_bind (py_getitem ivars i) (\<lambda>v. Inr (lp_scale (storage_cost self) v)))
       [0..<num_periods self]
        = Inr (map (\<lambda>i. lp_scale (storage_cost self) (ivars ! i)) [0..<num_periods self])"
    using assms by (intro py_listcomp_Inr) (simp add: py_bind_def py_getitem_def)
  show ?thesis
    unfolding pi_objective_def a b by (simp add: py_bind_def)
qed

lemma pi_objective_Inl:
  assumes "length (production_costs self) < num_periods self"
  shows "pi_objective self pvars ivars = Inl IndexError"
proof -
  let ?f = "\<lambda>i. py_bind (py_getitem (production_costs self) i) (\<lambda>c.
         py_bind (py_getitem pvars i) (\<lambda>v. Inr (lp_scale c v)))"
  have "py_listcomp ?f [0..<num_periods self] = Inl IndexError"
  proof (rule py_listcomp_fails [where x = "length (production_costs self)"])
    show "length (production_costs self) \<in> set [0..<num_periods self]" using assms by simp
    show "?f (length (production_costs self)) = Inl IndexError"
      by (simp add: py_bind_def py_getitem_def)
    show "?f y = Inl IndexError \<or> (\<exists>z. ?f y = Inr z)" for y
      by (simp add: py_bind_def py_getitem_def)
  qed
  then show ?thesis by (simp add: pi_objective_def py_bind_def)
qed

lemma pi_balance_loop_Inr:
  assumes "\<And>i. i \<in> set js \<Longrightarrow> i < length pvars \<and> i < length ivars \<and> i < length (demands self)"
  shows "pi_balance_loop self pvars ivars js m
         = Inr (m\<lparr>constraints := constraints m @ map (pi_balance_row pvars ivars (demands self)) js\<rparr>)"
  using assms
proof (induction js arbitrary: m)
  case Nil
  then show ?case by simp
next
  case (Cons j js)
  have j: "j < length pvars" "j < length ivars" "j < length (demands self)" "j - 1 < length ivars"
    using Cons.prems [of j] by auto
  have step: "pi_period_balance self pvars ivars j m
        = Inr (m\<lparr>constraints := constraints m @ [pi_balance_row pvars ivars (demands self) j]\<rparr>)"
    using j
    by (simp add: pi_period_balance_def py_bind_def py_getitem_def add_constraint_def
        pi_balance_row_def lp_sub_def lp_add_def lp_var_def)
  show ?case
    using Cons.IH [of "m\<lparr>constraints := constraints m @ [pi_balance_row pvars ivars (demands self) j]\<rparr>"]
      Cons.prems
    by (simp add: step)
qed

lemma pi_build_model_Inr:
  assumes n: "0 < num_periods self" "num_periods self \<le> length (production_costs self)"
    "num_periods self \<le> length (demands self)"
  shows "\<exists>total. ProductionInventoryOptimizer_build_model self =
     Inr (self\<lparr>pi_model := Some
            \<lparr>prob_name = ''Production_Inventory_Optimization'', prob_direction = LpMinimize,
             objective = total, objective_name = ''Total_Cost'',
             constraints =
               \<lparr>con_expr = [(pi_production_vars (num_periods self) ! 0, 1),
                            (pi_inventory_vars (num_periods self) ! 0, - 1)],
                con_operator = LpConstraintEQ, con_rhs = demands self ! 0,
                con_name = ''Period_1_Balance''\<rparr>
               # map (pi_balance_row (pi_production_vars (num_periods self))
                       (pi_inventory_vars (num_periods self)) (demands self))
                   [1..<num_periods self]\<rparr>,
          production_vars := Some (pi_production_vars (num_periods self)),
          inventory_vars := Some (pi_inventory_vars (num_periods self))\<rparr>)"
proof -
  let ?pv = "pi_production_vars (num_periods self)"
  let ?iv = "pi_inventory_vars (num_periods self)"
  from pi_objective_Inr [of self ?pv ?iv] n obtain total
    where total: "pi_objective self ?pv ?iv = Inr total" by auto
  have d0: "0 < length (demands self)" using n by linarith
  have first: "pi_period_1_balance self ?pv ?iv m
      = Inr (m\<lparr>constraints := constraints m @
          [\<lparr>con_expr = [(?pv ! 0, 1), (?iv ! 0, - 1)],
            con_operator = LpConstraintEQ, con_rhs = demands self ! 0,
            con_name = ''Period_1_Balance''\<rparr>]\<rparr>)" for m
    using n d0
    by (simp add: pi_period_1_balance_def py_bind_def py_getitem_def add_constraint_def
        lp_sub_def lp_var_def)
  have loop: "pi_balance_loop self ?pv ?iv [1..<num_periods self] m
      = Inr (m\<lparr>constraints := constraints m @
           map (pi_balance_row ?pv ?iv (demands self)) [1..<num_periods self]\<rparr>)" for m
    using n by (intro pi_balance_loop_Inr) simp
  show ?thesis
    unfolding ProductionInventoryOptimizer_build_model_def Let_def total
    by (auto simp: py_bind_def first loop [unfolded One_nat_def] set_objective_def new_problem_def)
qed

text \<open>
  C1 (as amended). For every demand list of length \<open>n \<ge> 1\<close> and every stored
  production-cost list with at least \<open>n\<close> entries (the list passed, or the default of six
  entries when none or an empty one is passed), \<open>build_model\<close> succeeds and emits exactly
  \<open>n\<close> equality constraints in period order: the first is \<open>x_1 - I_1 = demand_1\<close>, and
  for \<open>2 \<le> t \<le> n\<close> the \<open>t\<close>-th is \<open>I_{t-1} + x_t - I_t = demand_t\<close>, with coefficients
  \<open>+1\<close>, \<open>+1\<close>, \<open>-1\<close> on the variables of the model's own lists, each constraint holding
  exactly when the balance equation does, and every production and inventory variable
  bounded below by 0. (Periods are counted from 0 in the statement.)
\<close>

theorem production_balance_constraints:
  assumes "dem \<noteq> []" and "length dem \<le> length (py_or costs [50, 45, 55, 48, 52, 50])"
  shows "\<exists>self' m pv iv.
      ProductionInventoryOptimizer_build_model
        (ProductionInventoryOptimizer_init costs st (Some dem)) = Inr self'
    \<and> pi_model self' = Some m \<and> production_vars self' = Some pv \<and> inventory_vars self' = Some iv
    \<and> pv = map (\<lambda>i. new_variable (''x_'' @ str_nat (i + 1))) [0..<length dem]
    \<and> iv = map (\<lambda>i. new_variable (''I_'' @ str_nat (i + 1))) [0..<length dem]
    \<and> (\<forall>v \<in> set (pv @ iv). lowBound v = Some 0)
    \<and> length (constraints m) = length dem
    \<and> constraints m ! 0 =
        \<lparr>con_expr = [(pv ! 0, 1), (iv ! 0, - 1)], con_operator = LpConstraintEQ,
         con_rhs = dem ! 0, con_name = ''Period_1_Balance''\<rparr>
    \<and> (\<forall>t. 1 \<le> t \<and> t < length dem \<longrightarrow>
          constraints m ! t =
            \<lparr>con_expr = [(iv ! (t - 1), 1), (pv ! t, 1), (iv ! t, - 1)],
             con_operator = LpConstraintEQ, con_rhs = dem ! t,
             con_name = ''Period_'' @ str_nat (t + 1) @ ''_Balance''\<rparr>)
    \<and> (\<forall>val. constraint_holds val (constraints m ! 0) \<longleftrightarrow> val (pv ! 0) - val (iv ! 0) = dem ! 0)
    \<and> (\<forall>val t. 1 \<le> t \<and> t < length dem \<longrightarrow>
          (constraint_holds val (constraints m ! t)
             \<longleftrightarrow> val (iv ! (t - 1)) + val (pv ! t) - val (iv ! t) = dem ! t))"
proof -
  let ?self = "ProductionInventoryOptimizer_init costs st (Some dem)"
  have fields: "num_periods ?self = length dem" "demands ?self = dem"
    "production_costs ?self = py_or costs [50, 45, 55, 48, 52, 50]"
    using assms(1) by (simp_all add: ProductionInventoryOptimizer_init_def py_or_def Let_def)
  let ?pv = "pi_production_vars (length dem)"
  let ?iv = "pi_inventory_vars (length dem)"
  from pi_build_model_Inr [of ?self] assms obtain total where
    b: "ProductionInventoryOptimizer_build_model ?self =
     Inr (?self\<lparr>pi_model := Some
            \<lparr>prob_name = ''Production_Inventory_Optimization'', prob_direction = LpMinimize,
             objective = total, objective_name = ''Total_Cost'',
             constraints =
               \<lparr>con_expr = [(?pv ! 0, 1), (?iv ! 0, - 1)],
                con_operator = LpConstraintEQ, con_rhs = dem ! 0,
                con_name = ''Period_1_Balance''\<rparr>
               # map (pi_balance_row ?pv ?iv dem) [1..<length dem]\<rparr>,
          production_vars := Some ?pv, inventory_vars := Some ?iv\<rparr>)"
      (is "_ = Inr ?self'")
    unfolding fields by auto
  let ?m = "the (pi_model ?self')"
  have len: "0 < length dem" using assms(1) by simp
  have nth: "(c # map f [1..<length dem]) ! t = f t" if "1 \<le> t" "t < length dem"
    for c :: LpConstraint and f t
    using that by (cases t) simp_all
  have nth': "map f [Suc 0..<length dem] ! (t - Suc 0) = f t" if "Suc 0 \<le> t" "t < length dem"
    for f :: "nat \<Rightarrow> LpConstraint" and t
    using that by simp
  show ?thesis
    apply (rule exI [of _ ?self'])
    apply (rule exI [of _ ?m])
    apply (rule exI [of _ ?pv])
    apply (rule exI [of _ ?iv])
    apply (intro conjI)
    subgoal by (rule b)
    subgoal by simp
    subgoal by simp
    subgoal by simp
    subgoal by (simp add: pi_production_vars_def)
    subgoal by (simp add: pi_inventory_vars_def)
    subgoal by (auto simp: pi_production_vars_def pi_inventory_vars_def new_variable_def)
    subgoal using len by simp
    subgoal by simp
    subgoal by (simp add: nth' pi_balance_row_def)
    subgoal by (simp add: constraint_holds_def lp_value_def)
    subgoal by (simp add: nth' pi_balance_row_def constraint_holds_def lp_value_def algebra_simps)
    done
qed

theorem production_balance_constraints_witness:
  "\<exists>self' m.
      ProductionInventoryOptimizer_build_model
        (ProductionInventoryOptimizer_init (Some [10, 12]) 2 (Some [100, 100])) = Inr self'
    \<and> pi_model self' = Some m
    \<and> length (constraints m) = 2
    \<and> constraints m ! 0 =
        \<lparr>con_expr = [(new_variable ''x_1'', 1), (new_variable ''I_1'', - 1)],
         con_operator = LpConstraintEQ, con_rhs = 100, con_name = ''Period_1_Balance''\<rparr>
    \<and> constraints m ! 1 =
        \<lparr>con_expr = [(new_variable ''I_1'', 1), (new_variable ''x_2'', 1),
                     (new_variable ''I_2'', - 1)],
         con_operator = LpConstraintEQ, con_rhs = 100, con_name = ''Period_2_Balance''\<rparr>"
proof -
  have h1: "[100, 100 :: real] \<noteq> []" by simp
  have h2: "length [100, 100 :: real] \<le> length (py_or (Some [10, 12]) [50, 45, 55, 48, 52, 50 :: real])"
    by (simp add: py_or_def)
  have up: "[0..<2] = [0, 1]" by (simp add: upt_rec)
  from production_balance_constraints [OF h1 h2, of 2] show ?thesis
    apply (elim exE conjE)
    subgoal for self' m pv iv
      apply (rule exI [of _ self'])
      apply (rule exI [of _ m])
      apply (simp add: up str_nat.simps digit_char_def)
      done
    done
qed

text \<open>
  With seven demands and the default six production costs, \<open>build_model\<close> raises
  IndexError while it builds the objective, and emits no constraint.
\<close>

theorem production_short_costs_counterexample:
  "ProductionInventoryOptimizer_build_model
     (ProductionInventoryOptimizer_init None 8 (Some [1, 2, 3, 4, 5, 6, 7])) = Inl IndexError"
  by (simp add: ProductionInventoryOptimizer_build_model_def ProductionInventoryOptimizer_init_def
      py_or_def pi_objective_def py_bind_def py_getitem_def pi_production_vars_def
      pi_inventory_vars_def upt_rec)

subsection \<open>The loan portfolio model\<close>

lemma length_bl_new_variables [simp]: "length (bl_new_variables self) = length (loan_types self)"
  by (simp add: bl_new_variables_def)

lemma calculate_net_returns_eq:
  "calculate_net_returns self =
     (if length (loan_types self) \<le> length (interest_rates self)
         \<and> length (loan_types self) \<le> length (bad_debt_ratios self)
      then Inr (map (\<lambda>i. interest_rates self ! i * (1 - bad_debt_ratios self ! i)
                          - bad_debt_ratios self ! i) [0..<length (loan_types self)])
      else Inl IndexError)"
proof (cases "length (loan_types self) \<le> length (interest_rates self)
         \<and> length (loan_types self) \<le> length (bad_debt_ratios self)")
  case True
  then show ?thesis
    unfolding calculate_net_returns_def
    by (subst py_listcomp_Inr [where g = "\<lambda>i. interest_rates self ! i * (1 - bad_debt_ratios self ! i)
                          - bad_debt_ratios self ! i"])
       (simp_all add: py_bind_def py_getitem_def Let_def)
next
  case False
  let ?n = "length (loan_types self)"
  let ?f = "\<lambda>i. py_bind (py_getitem (bad_debt_ratios self) i) (\<lambda>bad_debt.
         let good_loan_fraction = 1 - bad_debt in
         py_bind (py_getitem (interest_rates self) i) (\<lambda>rate.
         let interest_earned = rate * good_loan_fraction in
         py_bind (py_getitem (bad_debt_ratios self) i) (\<lambda>bad_debt'.
         Inr (interest_earned - bad_debt'))))"
  from False have pos: "0 < ?n" by auto
  have "py_listcomp ?f [0..<?n] = Inl IndexError"
  proof (rule py_listcomp_fails [where x = "?n - 1"])
    show "?n - 1 \<in> set [0..<?n]" using pos by simp
    show "?f (?n - 1) = Inl IndexError"
      using False pos by (auto simp: py_bind_def py_getitem_def Let_def)
    show "?f y = Inl IndexError \<or> (\<exists>z. ?f y = Inr z)" for y
      by (simp add: py_bind_def py_getitem_def Let_def)
  qed
  with False show ?thesis by (simp add: calculate_net_returns_def)
qed

lemma bl_objective_eq:
  "bl_objective self (bl_new_variables self) =
     (if length (loan_types self) \<le> length (interest_rates self)
         \<and> length (loan_types self) \<le> length (bad_debt_ratios self)
      then Inr (map (\<lambda>i. (bl_new_variables self ! i,
                    interest_rates self ! i * (1 - bad_debt_ratios self ! i)
                          - bad_debt_ratios self ! i)) [0..<length (loan_types self)])
      else Inl IndexError)"
proof -
  let ?n = "length (loan_types self)"
  let ?r = "\<lambda>i. interest_rates self ! i * (1 - bad_debt_ratios self ! i) - bad_debt_ratios self ! i"
  have "py_listcomp (\<lambda>i. py_bind (py_getitem (map ?r [0..<?n]) i) (\<lambda>r.
         py_bind (py_getitem (bl_new_variables self) i) (\<lambda>v. Inr (lp_scale r v)))) [0..<?n]
       = Inr (map (\<lambda>i. [(bl_new_variables self ! i, ?r i)]) [0..<?n])"
    by (rule py_listcomp_Inr) (simp add: py_bind_def py_getitem_def lp_scale_def)
  then show ?thesis
    by (simp add: bl_objective_def calculate_net_returns_eq py_bind_def lpSum_def concat_map_singleton)
qed

lemma bl_bad_debt_limit_eq:
  "bl_bad_debt_limit self (bl_new_variables self) m =
     (if length (loan_types self) \<le> length (bad_debt_ratios self)
      then Inr (add_constraint m
                  (map (\<lambda>i. (bl_new_variables self ! i, bad_debt_ratios self ! i - 0.04))
                     [0..<length (loan_types self)])
                  LpConstraintLE 0 ''Bad_Debt_Limit'')
      else Inl IndexError)"
proof (cases "length (loan_types self) \<le> length (bad_debt_ratios self)")
  case True
  let ?n = "length (loan_types self)"
  have "py_listcomp (\<lambda>i. py_bind (py_getitem (bad_debt_ratios self) i) (\<lambda>b.
         py_bind (py_getitem (bl_new_variables self) i) (\<lambda>v. Inr (lp_scale (b - 0.04) v)))) [0..<?n]
       = Inr (map (\<lambda>i. [(bl_new_variables self ! i, bad_debt_ratios self ! i - 0.04)]) [0..<?n])"
    using True by (intro py_listcomp_Inr) (simp add: py_bind_def py_getitem_def lp_scale_def)
  with True show ?thesis
    by (simp add: bl_bad_debt_limit_def py_bind_def lpSum_def concat_map_singleton)
next
  case False
  let ?n = "length (loan_types self)"
  let ?f = "\<lambda>i. py_bind (py_getitem (bad_debt_ratios self) i) (\<lambda>b.
         py_bind (py_getitem (bl_new_variables self) i) (\<lambda>v. Inr (lp_scale (b - 0.04) v)))"
  from False have pos: "0 < ?n" by auto
  have "py_listcomp ?f [0..<?n] = Inl IndexError"
  proof (rule py_listcomp_fails [where x = "?n - 1"])
    show "?n - 1 \<in> set [0..<?n]" using pos by simp
    show "?f (?n - 1) = Inl IndexError"
      using False pos by (auto simp: py_bind_def py_getitem_def)
    show "?f y = Inl IndexError \<or> (\<exists>z. ?f y = Inr z)" for y
      by (simp add: py_bind_def py_getitem_def)
  qed
  with False show ?thesis by (simp add: bl_bad_debt_limit_def py_bind_def)
qed

lemma bl_farm_commercial_minimum_eq:
  "bl_farm_commercial_minimum vars m =
     (if 5 \<le> length vars
      then Inr (add_constraint m
                  [(vars ! 0, 0.4), (vars ! 1, 0.4), (vars ! 2, 0.4), (vars ! 3, - 0.6),
                   (vars ! 4, - 0.6)]
                  LpConstraintLE 0 ''Farm_Commercial_Minimum'')
      else Inl IndexError)"
  by (simp add: bl_farm_commercial_minimum_def py_bind_def py_getitem_def lp_sub_def lp_add_def
      lp_scale_def)

lemma bl_home_loan_minimum_eq:
  "bl_home_loan_minimum vars m =
     (if 3 \<le> length vars
      then Inr (add_constraint m [(vars ! 0, 0.5), (vars ! 1, 0.5), (vars ! 2, - 0.5)]
                  LpConstraintLE 0 ''Home_Loan_Minimum'')
      else Inl IndexError)"
  by (simp add: bl_home_loan_minimum_def py_bind_def py_getitem_def lp_sub_def lp_add_def
      lp_scale_def)

lemma lpSum_vars: "lpSum (map lp_var vs) = map (\<lambda>v. (v, 1)) vs"
  by (induction vs) (simp_all add: lpSum_def lp_var_def)

lemma bl_build_model_eq:
  "BankLoanOptimizer_build_model self =
     (if bl_inputs_fit self
      then Inr (self\<lparr>bl_model := Some (bl_model_of self),
                     bl_variables := Some (bl_new_variables self)\<rparr>)
      else Inl IndexError)"
  unfolding BankLoanOptimizer_build_model_def Let_def bl_objective_eq bl_bad_debt_limit_eq
    bl_farm_commercial_minimum_eq bl_home_loan_minimum_eq
  by (simp add: py_bind_def bl_inputs_fit_def bl_model_of_def Let_def add_constraint_def
      set_objective_def new_problem_def bl_total_funds_constraint_def bl_minimum_allocation_def
      lpSum_vars)

lemma LpStatus_Optimal [simp]: "LpStatus s = ''Optimal'' \<longleftrightarrow> s = StatusOptimal"
  by (cases s) (simp_all add: LpStatus_def)

lemma LpStatus_simps [simp]:
  "LpStatus StatusNotSolved = ''Not Solved''" "LpStatus StatusOptimal = ''Optimal''"
  "LpStatus StatusInfeasible = ''Infeasible''" "LpStatus StatusUnbounded = ''Unbounded''"
  "LpStatus StatusUndefined = ''Undefined''"
  by (simp_all add: LpStatus_def)

lemma py_bind_simps [simp]:
  "py_bind (Inr x) f = f x" "py_bind (Inl e) f = Inl e"
  by (simp_all add: py_bind_def)

lemma bl_roi_eq: "bl_roi a b = Inr (if b > 0 then a / b else 0)"
  by (simp add: bl_roi_def py_div_def)

lemma bl_items_eq:
  assumes "length vars = length (loan_types self)"
  shows "py_listcomp (\<lambda>i.
           py_bind (py_getitem (loan_types self) i) (\<lambda>loan_type.
           py_bind (py_getitem vars i) (\<lambda>v. Inr (loan_type, val v))))
         [0..<length (loan_types self)]
       = Inr (map (\<lambda>i. (loan_types self ! i, val (vars ! i))) [0..<length (loan_types self)])"
  using assms by (intro py_listcomp_Inr) (simp add: py_bind_def py_getitem_def)

lemma bl_solve_fresh:
  assumes "bl_model self0 = None"
  shows "BankLoanOptimizer_solve eng self0 =
     (if bl_inputs_fit self0 then
        (let m = bl_model_of self0;
             self = self0\<lparr>bl_model := Some m, bl_variables := Some (bl_new_variables self0)\<rparr>;
             status = fst (eng m); val = snd (eng m)
         in if status = StatusOptimal then
              (let allocations = py_dictcomp (map (\<lambda>i. (loan_types self0 ! i,
                                    val (bl_new_variables self0 ! i))) [0..<length (loan_types self0)]);
                   total_allocated = sum_list (map snd allocations);
                   objective_value = lp_value val (objective m);
                   sol = [(''status'', PStr ''Optimal''),
                          (''allocations'', PDict (map (\<lambda>(k, x). (k, PNum x)) allocations)),
                          (''total_allocated'', PNum total_allocated),
                          (''net_return'', PNum objective_value),
                          (''roi_percentage'',
                             PNum ((if total_allocated > 0 then objective_value / total_allocated
                                    else 0) * 100)),
                          (''model'', PModel m)]
               in Inr (sol, self\<lparr>bl_solution := Some sol\<rparr>))
            else Inr (bl_failure status, self\<lparr>bl_solution := Some (bl_failure status)\<rparr>))
      else Inl IndexError)"
proof (cases "bl_inputs_fit self0")
  case False
  with assms show ?thesis
    by (simp add: BankLoanOptimizer_solve_def bl_build_model_eq py_bind_def)
next
  case True
  let ?self = "self0\<lparr>bl_model := Some (bl_model_of self0),
                     bl_variables := Some (bl_new_variables self0)\<rparr>"
  have items: "py_listcomp (\<lambda>i.
           py_bind (py_getitem (loan_types ?self) i) (\<lambda>loan_type.
           py_bind (py_getitem (bl_new_variables self0) i) (\<lambda>v. Inr (loan_type, val v))))
         [0..<length (loan_types ?self)]
       = Inr (map (\<lambda>i. (loan_types ?self ! i, val (bl_new_variables self0 ! i)))
                [0..<length (loan_types ?self)])" for val
    by (rule bl_items_eq) simp
  show ?thesis
    using True assms
    by (simp add: BankLoanOptimizer_solve_def bl_build_model_eq split_beta
        items [simplified] bl_roi_eq Let_def)
qed

text \<open>
  C2. Whenever \<open>build_model\<close> builds a model, its third constraint is the rule "Farm and
  Commercial are at least 40% of all loans" linearized as
  \<open>0.4 x\<^sub>0 + 0.4 x\<^sub>1 + 0.4 x\<^sub>2 - 0.6 x\<^sub>3 - 0.6 x\<^sub>4 \<le> 0\<close>, and its fourth is the rule "Home is at
  least 50% of Personal, Car and Home" linearized as \<open>0.5 x\<^sub>0 + 0.5 x\<^sub>1 - 0.5 x\<^sub>2 \<le> 0\<close>: the
  coefficient is \<open>r\<close> on the other categories and \<open>-(1 - r)\<close> on the categories of the rule,
  the operator is \<open>\<le>\<close>, the right-hand side is 0, and each constraint holds for an
  assignment exactly when the ratio rule does. The variables are those of the loan types
  in order (Personal, Car, Home, Farm, Commercial by default).
\<close>

theorem ratio_minimum_linearization:
  assumes "BankLoanOptimizer_build_model self = Inr self'"
  shows "\<exists>m vars. bl_model self' = Some m \<and> bl_variables self' = Some vars
    \<and> vars = map (\<lambda>loan_type. new_variable (''x_'' @ loan_type)) (loan_types self)
    \<and> 5 \<le> length vars
    \<and> constraints m ! 2 =
        \<lparr>con_expr = [(vars ! 0, 0.4), (vars ! 1, 0.4), (vars ! 2, 0.4), (vars ! 3, - 0.6),
                     (vars ! 4, - 0.6)],
         con_operator = LpConstraintLE, con_rhs = 0, con_name = ''Farm_Commercial_Minimum''\<rparr>
    \<and> constraints m ! 3 =
        \<lparr>con_expr = [(vars ! 0, 0.5), (vars ! 1, 0.5), (vars ! 2, - 0.5)],
         con_operator = LpConstraintLE, con_rhs = 0, con_name = ''Home_Loan_Minimum''\<rparr>
    \<and> (\<forall>val. constraint_holds val (constraints m ! 2) \<longleftrightarrow>
          val (vars ! 3) + val (vars ! 4)
            \<ge> 0.4 * (val (vars ! 0) + val (vars ! 1) + val (vars ! 2) + val (vars ! 3)
                       + val (vars ! 4)))
    \<and> (\<forall>val. constraint_holds val (constraints m ! 3) \<longleftrightarrow>
          val (vars ! 2) \<ge> 0.5 * (val (vars ! 0) + val (vars ! 1) + val (vars ! 2)))"
proof -
  from assms have fit: "bl_inputs_fit self"
    and self': "self' = self\<lparr>bl_model := Some (bl_model_of self),
                              bl_variables := Some (bl_new_variables self)\<rparr>"
    by (auto simp: bl_build_model_eq split: if_splits)
  show ?thesis
    apply (rule exI [of _ "bl_model_of self"])
    apply (rule exI [of _ "bl_new_variables self"])
    apply (intro conjI)
    subgoal by (simp add: self')
    subgoal by (simp add: self')
    subgoal by (simp add: bl_new_variables_def)
    subgoal using fit by (simp add: bl_inputs_fit_def)
    subgoal by (simp add: bl_model_of_def Let_def)
    subgoal by (simp add: bl_model_of_def Let_def)
    subgoal by (auto simp: bl_model_of_def Let_def constraint_holds_def lp_value_def)
    subgoal by (auto simp: bl_model_of_def Let_def constraint_holds_def lp_value_def)
    done
qed

theorem ratio_minimum_linearization_witness:
  "\<exists>self' m. BankLoanOptimizer_build_model (BankLoanOptimizer_init 12000000 None None None) = Inr self'
    \<and> bl_model self' = Some m
    \<and> constraints m ! 2 =
        \<lparr>con_expr = [(new_variable ''x_Personal'', 0.4), (new_variable ''x_Car'', 0.4),
                     (new_variable ''x_Home'', 0.4), (new_variable ''x_Farm'', - 0.6),
                     (new_variable ''x_Commercial'', - 0.6)],
         con_operator = LpConstraintLE, con_rhs = 0, con_name = ''Farm_Commercial_Minimum''\<rparr>
    \<and> constraints m ! 3 =
        \<lparr>con_expr = [(new_variable ''x_Personal'', 0.5), (new_variable ''x_Car'', 0.5),
                     (new_variable ''x_Home'', - 0.5)],
         con_operator = LpConstraintLE, con_rhs = 0, con_name = ''Home_Loan_Minimum''\<rparr>"
proof -
  let ?self = "BankLoanOptimizer_init 12000000 None None None"
  have fit: "bl_inputs_fit ?self"
    by (simp add: bl_inputs_fit_def BankLoanOptimizer_init_def py_or_def)
  then obtain self' where b: "BankLoanOptimizer_build_model ?self = Inr self'"
    by (simp add: bl_build_model_eq)
  have lt: "loan_types ?self = [''Personal'', ''Car'', ''Home'', ''Farm'', ''Commercial'']"
    by (simp add: BankLoanOptimizer_init_def py_or_def)
  from ratio_minimum_linearization [OF b] show ?thesis
    unfolding lt
    apply (elim exE conjE)
    subgoal for m vars
      apply (rule exI [of _ self'])
      apply (rule exI [of _ m])
      apply (simp add: b)
      done
    done
qed


lemma two_category_fields:
  "loan_types two_category_optimizer = [''A'', ''B'']"
  "interest_rates two_category_optimizer = [0.15, 0.14]"
  "bad_debt_ratios two_category_optimizer = [0.08, 0.05]"
  "total_funds two_category_optimizer = 1000000"
  "bl_model two_category_optimizer = None"
  by (simp_all add: two_category_optimizer_def BankLoanOptimizer_init_def py_or_def)

lemma upt_2: "[0..<2] = [0, 1]"
  by (simp add: upt_rec)

lemma bit_length_numerals:
  "bit_length 5404319552844595 = 53"
  "bit_length 5044031582654956 = 53"
  "bit_length 5764607523034235 = 53"
  "bit_length 7205759403792794 = 53"
  "bit_length 8358680908399641 = 53"
  "bit_length 8358680908399642 = 53"
  "bit_length 5980780305148019 = 53"
  "bit_length 66292986514893701 = 56"
  "bit_length 44783560404862888584305906991235 = 106"
  "bit_length 4179340454199821 = 52"
  "bit_length 136909428672063078 = 57"
  "bit_length 43160967636570756751829977836552 = 106"
  "bit_length 11961560610296038 = 54"
  "bit_length 5980780305148019000000 = 73"
  "bit_length 5980780305148018688000 = 73"
  "bit_length 0 = 0"
  by (simp_all add: bit_length.simps)

text \<open>
  The doubles of the scenario are the ones that Python reads from its decimal numbers, and
  so are the doubles that stand for 0.058, 0.05800000000000001 and 0.083.
\<close>

lemma two_category_doubles:
  "f64_reads (F64 5404319552844595 (- 55)) 0.15"
  "f64_reads (F64 5044031582654956 (- 55)) 0.14"
  "f64_reads (F64 5764607523034235 (- 56)) 0.08"
  "f64_reads (F64 7205759403792794 (- 57)) 0.05"
  "f64_reads (F64 8358680908399641 (- 57)) 0.058"
  "f64_reads (F64 8358680908399642 (- 57)) 0.05800000000000001"
  "f64_reads (F64 5980780305148019 (- 56)) 0.083"
  by (simp_all add: f64_reads_def f64_real_def bit_length_numerals)

text \<open>
  The steps of \<open>_calculate_net_returns\<close> on these doubles: \<open>1 - bad_debt\<close>, the product with
  the interest rate, and the difference with the bad debt.
\<close>

lemma good_loan_fraction_f64:
  "f64_sub (F64 1 0) (F64 5764607523034235 (- 56)) = F64 8286623314361713 (- 53)"
  "f64_sub (F64 1 0) (F64 7205759403792794 (- 57)) = F64 8556839292003942 (- 53)"
  by (simp_all add: f64_sub_def f64_align_def f64_round_def Let_def bit_length_numerals)

lemma interest_earned_f64:
  "f64_mul (F64 5404319552844595 (- 55)) (F64 8286623314361713 (- 53))
     = F64 4971973988617028 (- 55)"
  "f64_mul (F64 5044031582654956 (- 55)) (F64 8556839292003942 (- 53))
     = F64 4791830003522208 (- 55)"
  by (simp_all add: f64_mul_def f64_round_def Let_def bit_length_numerals)

lemma net_return_f64:
  "f64_sub (F64 4971973988617028 (- 55)) (F64 5764607523034235 (- 56))
     = F64 4179340454199821 (- 56)"
  "f64_sub (F64 4791830003522208 (- 55)) (F64 7205759403792794 (- 57))
     = F64 5980780305148019 (- 56)"
  by (simp_all add: f64_sub_def f64_align_def f64_round_def Let_def bit_length_numerals)

lemma calculate_net_returns_f64_two_category:
  "calculate_net_returns_f64 two_category_rates_f64 two_category_ratios_f64
       (loan_types two_category_optimizer)
     = Inr [F64 4179340454199821 (- 56), F64 5980780305148019 (- 56)]"
  by (simp add: calculate_net_returns_f64_def two_category_rates_f64_def
      two_category_ratios_f64_def two_category_fields upt_2 py_getitem_def Let_def
      good_loan_fraction_f64 interest_earned_f64 net_return_f64)

text \<open>The objective value of the full allocation to the second category, on doubles.\<close>

lemma all_to_second_f64_simps:
  "all_to_second_f64 (new_variable ''x_A'') = F64 0 0"
  "all_to_second_f64 (new_variable ''x_B'') = F64 1000000 0"
  by (simp_all add: all_to_second_f64_def new_variable_def)

lemma objective_terms_f64:
  "f64_mul (F64 0 0) (F64 4179340454199821 (- 56)) = F64 0 (- 56)"
  "f64_mul (F64 1000000 0) (F64 5980780305148019 (- 56)) = F64 5703716569088000 (- 36)"
  "f64_add (F64 0 0) (F64 0 (- 56)) = F64 0 (- 56)"
  "f64_add (F64 0 (- 56)) (F64 5703716569088000 (- 36)) = F64 5703716569088000 (- 36)"
  by (simp_all add: f64_mul_def f64_add_def f64_align_def f64_round_def Let_def
      bit_length_numerals)

lemma lp_value_f64_all_to_second:
  "lp_value_f64 all_to_second_f64
     [(new_variable ''x_A'', F64 4179340454199821 (- 56)),
      (new_variable ''x_B'', F64 5980780305148019 (- 56))]
   = F64 5703716569088000 (- 36)"
  by (simp add: lp_value_f64_def all_to_second_f64_simps objective_terms_f64)

text \<open>Every model that \<open>build_model\<close> returns has the same five constraints.\<close>

lemma bl_build_model_names:
  assumes "BankLoanOptimizer_build_model self = Inr self'"
  shows "\<exists>m. bl_model self' = Some m
           \<and> map con_name (constraints m)
               = [''Total_Funds_Constraint'', ''Minimum_Allocation'',
                  ''Farm_Commercial_Minimum'', ''Home_Loan_Minimum'', ''Bad_Debt_Limit'']"
proof -
  from assms have "self' = self\<lparr>bl_model := Some (bl_model_of self),
                         bl_variables := Some (bl_new_variables self)\<rparr>"
    by (simp add: bl_build_model_eq split: if_splits)
  then show ?thesis by (simp add: bl_model_of_def Let_def)
qed

text \<open>
  With two loan types \<open>build_model\<close> cannot read the variables of its ratio constraints:
  it raises IndexError, and so does \<open>solve\<close>, whatever the engine.
\<close>

theorem two_category_solve_counterexample:
  "BankLoanOptimizer_build_model two_category_optimizer = Inl IndexError
   \<and> BankLoanOptimizer_solve (constant_engine StatusOptimal 0) two_category_optimizer
       = Inl IndexError"
  by (simp add: bl_solve_fresh bl_build_model_eq bl_inputs_fit_def two_category_fields)

text \<open>
  C5 (as amended). For the optimizer with total funds 1,000,000, interest rates 0.15 and
  0.14, bad-debt ratios 0.08 and 0.05 and two loan types A and B:
  in exact arithmetic \<open>_calculate_net_returns\<close> yields 0.058 and 0.083; on the doubles that
  Python reads from these rates and ratios it returns the doubles 0.05800000000000001,
  which is not the double 0.058, and 0.083.
  In exact arithmetic the objective that \<open>build_model\<close> forms, before it raises, is
  \<open>0.058 x\<^sub>A + 0.083 x\<^sub>B\<close>, and its budget constraint is \<open>x\<^sub>A + x\<^sub>B \<le> 1,000,000\<close>; every assignment within the variables'
  bounds and the budget has objective value at most 83,000, and the assignment of the
  full 1,000,000 to the second category is within bounds and budget and attains 83,000;
  on doubles, with the net returns as the method returns them, the objective value of
  that assignment is 83000.0 as well.
  But every model that \<open>build_model\<close> returns, for any optimizer, has the constraints
  Total\_Funds\_Constraint, Minimum\_Allocation, Farm\_Commercial\_Minimum,
  Home\_Loan\_Minimum and Bad\_Debt\_Limit, in this order, so none has the budget constraint
  alone; and for this optimizer \<open>solve\<close> raises IndexError whatever the engine.
\<close>

theorem two_category_net_returns:
  "calculate_net_returns two_category_optimizer = Inr [0.058, 0.083]
   \<and> list_all2 f64_reads two_category_rates_f64 (interest_rates two_category_optimizer)
   \<and> list_all2 f64_reads two_category_ratios_f64 (bad_debt_ratios two_category_optimizer)
   \<and> calculate_net_returns_f64 two_category_rates_f64 two_category_ratios_f64
         (loan_types two_category_optimizer)
       = Inr [F64 4179340454199821 (- 56), F64 5980780305148019 (- 56)]
   \<and> f64_eq (F64 4179340454199821 (- 56)) (F64 8358680908399642 (- 57))
   \<and> f64_reads (F64 8358680908399642 (- 57)) 0.05800000000000001
   \<and> \<not> f64_eq (F64 4179340454199821 (- 56)) (F64 8358680908399641 (- 57))
   \<and> f64_reads (F64 8358680908399641 (- 57)) 0.058
   \<and> f64_reads (F64 5980780305148019 (- 56)) 0.083
   \<and> bl_objective two_category_optimizer (bl_new_variables two_category_optimizer)
       = Inr [(new_variable ''x_A'', 0.058), (new_variable ''x_B'', 0.083)]
   \<and> constraints (bl_total_funds_constraint two_category_optimizer
         (bl_new_variables two_category_optimizer)
         (new_problem ''Bank_Loan_Portfolio_Optimization'' LpMaximize))
       = [\<lparr>con_expr = [(new_variable ''x_A'', 1), (new_variable ''x_B'', 1)],
           con_operator = LpConstraintLE, con_rhs = 1000000,
           con_name = ''Total_Funds_Constraint''\<rparr>]
   \<and> (\<forall>val. list_all (within_bounds val) (bl_new_variables two_category_optimizer)
           \<and> constraint_holds val
                \<lparr>con_expr = [(new_variable ''x_A'', 1), (new_variable ''x_B'', 1)],
                 con_operator = LpConstraintLE, con_rhs = 1000000,
                 con_name = ''Total_Funds_Constraint''\<rparr>
         \<longrightarrow> lp_value val [(new_variable ''x_A'', 0.058), (new_variable ''x_B'', 0.083)]
               \<le> 83000)
   \<and> list_all (within_bounds all_to_second) (bl_new_variables two_category_optimizer)
   \<and> constraint_holds all_to_second
        \<lparr>con_expr = [(new_variable ''x_A'', 1), (new_variable ''x_B'', 1)],
         con_operator = LpConstraintLE, con_rhs = 1000000,
         con_name = ''Total_Funds_Constraint''\<rparr>
   \<and> lp_value all_to_second
        [(new_variable ''x_A'', 0.058), (new_variable ''x_B'', 0.083)] = 83000
   \<and> f64_eq (lp_value_f64 all_to_second_f64
          [(new_variable ''x_A'', F64 4179340454199821 (- 56)),
           (new_variable ''x_B'', F64 5980780305148019 (- 56))])
        (F64 83000 0)
   \<and> (\<forall>self self'. BankLoanOptimizer_build_model self = Inr self'
         \<longrightarrow> (\<exists>m. bl_model self' = Some m
                \<and> map con_name (constraints m)
                    = [''Total_Funds_Constraint'', ''Minimum_Allocation'',
                       ''Farm_Commercial_Minimum'', ''Home_Loan_Minimum'',
                       ''Bad_Debt_Limit'']))
   \<and> (\<forall>eng. BankLoanOptimizer_solve eng two_category_optimizer = Inl IndexError)"
proof (intro conjI)
  show "calculate_net_returns two_category_optimizer = Inr [0.058, 0.083]"
    by (simp add: calculate_net_returns_eq two_category_fields upt_2)
  show "list_all2 f64_reads two_category_rates_f64 (interest_rates two_category_optimizer)"
    by (simp add: two_category_rates_f64_def two_category_fields f64_reads_def f64_real_def
        bit_length_numerals)
  show "list_all2 f64_reads two_category_ratios_f64 (bad_debt_ratios two_category_optimizer)"
    by (simp add: two_category_ratios_f64_def two_category_fields f64_reads_def f64_real_def
        bit_length_numerals)
  show "calculate_net_returns_f64 two_category_rates_f64 two_category_ratios_f64
         (loan_types two_category_optimizer)
       = Inr [F64 4179340454199821 (- 56), F64 5980780305148019 (- 56)]"
    by (rule calculate_net_returns_f64_two_category)
  show "f64_eq (F64 4179340454199821 (- 56)) (F64 8358680908399642 (- 57))"
    by (simp add: f64_eq_def f64_align_def Let_def)
  show "f64_reads (F64 8358680908399642 (- 57)) 0.05800000000000001"
    by (rule two_category_doubles)
  show "\<not> f64_eq (F64 4179340454199821 (- 56)) (F64 8358680908399641 (- 57))"
    by (simp add: f64_eq_def f64_align_def Let_def)
  show "f64_reads (F64 8358680908399641 (- 57)) 0.058"
    by (rule two_category_doubles)
  show "f64_reads (F64 5980780305148019 (- 56)) 0.083"
    by (rule two_category_doubles)
  show "bl_objective two_category_optimizer (bl_new_variables two_category_optimizer)
       = Inr [(new_variable ''x_A'', 0.058), (new_variable ''x_B'', 0.083)]"
    by (subst bl_objective_eq) (simp add: two_category_fields upt_2 bl_new_variables_def)
  show "constraints (bl_total_funds_constraint two_category_optimizer
         (bl_new_variables two_category_optimizer)
         (new_problem ''Bank_Loan_Portfolio_Optimization'' LpMaximize))
       = [\<lparr>con_expr = [(new_variable ''x_A'', 1), (new_variable ''x_B'', 1)],
           con_operator = LpConstraintLE, con_rhs = 1000000,
           con_name = ''Total_Funds_Constraint''\<rparr>]"
    by (simp add: bl_total_funds_constraint_def add_constraint_def new_problem_def lpSum_def
        lp_var_def bl_new_variables_def two_category_fields)
  show "\<forall>val. list_all (within_bounds val) (bl_new_variables two_category_optimizer)
           \<and> constraint_holds val
                \<lparr>con_expr = [(new_variable ''x_A'', 1), (new_variable ''x_B'', 1)],
                 con_operator = LpConstraintLE, con_rhs = 1000000,
                 con_name = ''Total_Funds_Constraint''\<rparr>
         \<longrightarrow> lp_value val [(new_variable ''x_A'', 0.058), (new_variable ''x_B'', 0.083)]
               \<le> 83000"
  proof (intro allI impI)
    fix val
    assume h: "list_all (within_bounds val) (bl_new_variables two_category_optimizer)
           \<and> constraint_holds val
                \<lparr>con_expr = [(new_variable ''x_A'', 1), (new_variable ''x_B'', 1)],
                 con_operator = LpConstraintLE, con_rhs = 1000000,
                 con_name = ''Total_Funds_Constraint''\<rparr>"
    let ?a = "val (new_variable ''x_A'')" and ?b = "val (new_variable ''x_B'')"
    from h have "0 \<le> ?a" "0 \<le> ?b" "?a + ?b \<le> 1000000"
      by (simp_all add: bl_new_variables_def two_category_fields within_bounds_def
          new_variable_def constraint_holds_def lp_value_def)
    then have "0.058 * ?a + 0.083 * ?b \<le> 83000" by simp
    then show "lp_value val [(new_variable ''x_A'', 0.058), (new_variable ''x_B'', 0.083)]
               \<le> 83000"
      by (simp add: lp_value_def)
  qed
  show "list_all (within_bounds all_to_second) (bl_new_variables two_category_optimizer)"
    by (simp add: bl_new_variables_def two_category_fields within_bounds_def new_variable_def
        all_to_second_def)
  show "constraint_holds all_to_second
        \<lparr>con_expr = [(new_variable ''x_A'', 1), (new_variable ''x_B'', 1)],
         con_operator = LpConstraintLE, con_rhs = 1000000,
         con_name = ''Total_Funds_Constraint''\<rparr>"
    by (simp add: constraint_holds_def lp_value_def all_to_second_def new_variable_def)
  show "lp_value all_to_second
        [(new_variable ''x_A'', 0.058), (new_variable ''x_B'', 0.083)] = 83000"
    by (simp add: lp_value_def all_to_second_def new_variable_def)
  show "f64_eq (lp_value_f64 all_to_second_f64
          [(new_variable ''x_A'', F64 4179340454199821 (- 56)),
           (new_variable ''x_B'', F64 5980780305148019 (- 56))])
        (F64 83000 0)"
    by (simp add: lp_value_f64_all_to_second f64_eq_def f64_align_def Let_def)
  show "\<forall>self self'. BankLoanOptimizer_build_model self = Inr self'
         \<longrightarrow> (\<exists>m. bl_model self' = Some m
                \<and> map con_name (constraints m)
                    = [''Total_Funds_Constraint'', ''Minimum_Allocation'',
                       ''Farm_Commercial_Minimum'', ''Home_Loan_Minimum'',
                       ''Bad_Debt_Limit''])"
    by (intro allI impI) (rule bl_build_model_names)
  show "\<forall>eng. BankLoanOptimizer_solve eng two_category_optimizer = Inl IndexError"
    by (simp add: bl_solve_fresh bl_inputs_fit_def two_category_fields)
qed

theorem two_category_net_returns_witness:
  "lp_value all_to_second [(new_variable ''x_A'', 0.058), (new_variable ''x_B'', 0.083)]
     \<le> 83000
   \<and> (\<exists>self' m.
         BankLoanOptimizer_build_model (BankLoanOptimizer_init 1000000 None None None)
           = Inr self'
         \<and> bl_model self' = Some m
         \<and> map con_name (constraints m)
             = [''Total_Funds_Constraint'', ''Minimum_Allocation'',
                ''Farm_Commercial_Minimum'', ''Home_Loan_Minimum'', ''Bad_Debt_Limit''])"
proof (rule conjI)
  note t = two_category_net_returns
  have feas: "list_all (within_bounds all_to_second) (bl_new_variables two_category_optimizer)
      \<and> constraint_holds all_to_second
        \<lparr>con_expr = [(new_variable ''x_A'', 1), (new_variable ''x_B'', 1)],
         con_operator = LpConstraintLE, con_rhs = 1000000,
         con_name = ''Total_Funds_Constraint''\<rparr>"
    using t by blast
  have "\<forall>val. list_all (within_bounds val) (bl_new_variables two_category_optimizer)
           \<and> constraint_holds val
                \<lparr>con_expr = [(new_variable ''x_A'', 1), (new_variable ''x_B'', 1)],
                 con_operator = LpConstraintLE, con_rhs = 1000000,
                 con_name = ''Total_Funds_Constraint''\<rparr>
         \<longrightarrow> lp_value val [(new_variable ''x_A'', 0.058), (new_variable ''x_B'', 0.083)]
               \<le> 83000"
    using t by blast
  with feas show "lp_value all_to_second
      [(new_variable ''x_A'', 0.058), (new_variable ''x_B'', 0.083)] \<le> 83000"
    by blast
next
  let ?self = "BankLoanOptimizer_init 1000000 None None None"
  have "bl_inputs_fit ?self"
    by (simp add: bl_inputs_fit_def BankLoanOptimizer_init_def py_or_def)
  then obtain self' where b: "BankLoanOptimizer_build_model ?self = Inr self'"
    by (simp add: bl_build_model_eq)
  have names: "\<forall>self self'. BankLoanOptimizer_build_model self = Inr self'
         \<longrightarrow> (\<exists>m. bl_model self' = Some m
                \<and> map con_name (constraints m)
                    = [''Total_Funds_Constraint'', ''Minimum_Allocation'',
                       ''Farm_Commercial_Minimum'', ''Home_Loan_Minimum'',
                       ''Bad_Debt_Limit''])"
    using two_category_net_returns by blast
  from names [rule_format, OF b] obtain m where m: "bl_model self' = Some m
      \<and> map con_name (constraints m)
          = [''Total_Funds_Constraint'', ''Minimum_Allocation'',
             ''Farm_Commercial_Minimum'', ''Home_Loan_Minimum'', ''Bad_Debt_Limit'']" ..
  show "\<exists>self' m.
         BankLoanOptimizer_build_model ?self = Inr self'
         \<and> bl_model self' = Some m
         \<and> map con_name (constraints m)
             = [''Total_Funds_Constraint'', ''Minimum_Allocation'',
                ''Farm_Commercial_Minimum'', ''Home_Loan_Minimum'', ''Bad_Debt_Limit'']"
    apply (rule exI [of _ self'])
    apply (rule exI [of _ m])
    using b m apply simp
    done
qed

subsection \<open>Solving the loan portfolio model\<close>

lemma set_dict_setitem: "set (dict_setitem d k v) \<subseteq> insert (k, v) (set d)"
  by (induction d) (auto split: if_splits)

lemma keys_dict_setitem: "fst ` set (dict_setitem d k v) = insert k (fst ` set d)"
proof (induction d)
  case Nil
  then show ?case by simp
next
  case (Cons p d)
  obtain k' v' where p: "p = (k', v')" by (cases p)
  show ?case
  proof (cases "k' = k")
    case True
    then show ?thesis by (simp add: p)
  next
    case False
    with Cons.IH show ?thesis by (simp add: p insert_commute)
  qed
qed

lemma set_dict_fold:
  "set (foldl (\<lambda>d (k, v). dict_setitem d k v) d items) \<subseteq> set d \<union> set items"
proof (induction items arbitrary: d)
  case Nil
  then show ?case by simp
next
  case (Cons kv items)
  obtain k v where kv: "kv = (k, v)" by (cases kv)
  from Cons.IH [of "dict_setitem d k v"] set_dict_setitem [of d k v]
  show ?case by (auto simp: kv)
qed

lemma keys_dict_fold:
  "fst ` set (foldl (\<lambda>d (k, v). dict_setitem d k v) d items) = fst ` set d \<union> fst ` set items"
proof (induction items arbitrary: d)
  case Nil
  then show ?case by simp
next
  case (Cons kv items)
  obtain k v where kv: "kv = (k, v)" by (cases kv)
  from Cons.IH [of "dict_setitem d k v"] show ?case
    by (auto simp: kv keys_dict_setitem)
qed

lemma set_py_dictcomp: "set (py_dictcomp items) \<subseteq> set items"
  using set_dict_fold [of "[]" items] by (simp add: py_dictcomp_def)

lemma keys_py_dictcomp: "fst ` set (py_dictcomp items) = fst ` set items"
  using keys_dict_fold [of "[]" items] by (simp add: py_dictcomp_def)

lemma bl_items_error:
  "py_listcomp (\<lambda>i.
       py_bind (py_getitem lt i) (\<lambda>loan_type.
       py_bind (py_getitem vars i) (\<lambda>v. Inr (loan_type, val v)))) js = Inl e
   \<Longrightarrow> e = IndexError"
  by (drule py_listcomp_Inl) (auto simp: py_bind_def py_getitem_def split: if_splits)

lemma bl_solve_not_zero_division: "BankLoanOptimizer_solve eng self \<noteq> Inl ZeroDivisionError"
proof
  assume a: "BankLoanOptimizer_solve eng self = Inl ZeroDivisionError"
  define start where "start = (if bl_model self = None then BankLoanOptimizer_build_model self
              else Inr self)"
  have "start \<noteq> Inl ZeroDivisionError"
    by (simp add: start_def bl_build_model_eq)
  with a obtain self1 where s1: "start = Inr self1"
    unfolding BankLoanOptimizer_solve_def start_def [symmetric]
    by (cases start) auto
  from a have b: "(case (bl_model self1, bl_variables self1) of
       (Some m, Some vars) \<Rightarrow>
         (case eng m of (status, val) \<Rightarrow>
            if LpStatus status = ''Optimal'' then
              py_bind (py_listcomp (\<lambda>i.
                  py_bind (py_getitem (loan_types self1) i) (\<lambda>loan_type.
                  py_bind (py_getitem vars i) (\<lambda>v. Inr (loan_type, val v))))
                [0..<length (loan_types self1)]) (\<lambda>items.
              let allocations = py_dictcomp items;
                  total_allocated = sum_list (map snd allocations);
                  objective_value = lp_value val (objective m)
              in py_bind (bl_roi objective_value total_allocated) (\<lambda>roi.
              let sol =
                [(''status'', PStr (LpStatus status)),
                 (''allocations'', PDict (map (\<lambda>(k, x). (k, PNum x)) allocations)),
                 (''total_allocated'', PNum total_allocated),
                 (''net_return'', PNum objective_value),
                 (''roi_percentage'', PNum (roi * 100)),
                 (''model'', PModel m)]
              in Inr (sol, self1\<lparr>bl_solution := Some sol\<rparr>)))
            else
              Inr (bl_failure status, self1\<lparr>bl_solution := Some (bl_failure status)\<rparr>))
     | _ \<Rightarrow> Inl TypeError) = Inl ZeroDivisionError"
    unfolding BankLoanOptimizer_solve_def start_def [symmetric] s1 by simp
  show False
  proof (cases "bl_model self1")
    case None
    with b show False by simp
  next
    case (Some m)
    note m = this
    show False
    proof (cases "bl_variables self1")
      case None
      with b m show False by simp
    next
      case (Some vars)
      obtain status val where e: "eng m = (status, val)" by (cases "eng m")
      show False
      proof (cases "status = StatusOptimal")
        case False
        with b m Some e show False by simp
      next
        case True
        let ?items = "py_listcomp (\<lambda>i.
                  py_bind (py_getitem (loan_types self1) i) (\<lambda>loan_type.
                  py_bind (py_getitem vars i) (\<lambda>v. Inr (loan_type, val v))))
                [0..<length (loan_types self1)]"
        show False
        proof (cases ?items)
          case (Inl err)
          from bl_items_error [OF Inl] have "err = IndexError" .
          with b m Some e True Inl show False by simp
        next
          case (Inr items)
          with b m Some e True show False by (simp add: bl_roi_eq Let_def)
        qed
      qed
    qed
  qed
qed


lemma sum_list_all_zero: "(\<And>x. x \<in> set xs \<Longrightarrow> f x = (0::real)) \<Longrightarrow> sum_list (map f xs) = 0"
  by (induction xs) simp_all

lemma lp_value_ones: "lp_value val (map (\<lambda>v. (v, 1)) vs) = sum_list (map val vs)"
  by (induction vs) (simp_all add: lp_value_def)

lemma feasible_zero_budget:
  assumes "sum_list (map val vs) \<le> 0" and "\<And>v. v \<in> set vs \<Longrightarrow> 0 \<le> val v"
  shows "\<forall>v \<in> set vs. val v = (0::real)"
proof -
  have nonneg: "\<And>x. x \<in> set (map val vs) \<Longrightarrow> 0 \<le> x" using assms(2) by auto
  then have "0 \<le> sum_list (map val vs)" by (rule sum_list_nonneg)
  with assms(1) have "sum_list (map val vs) = 0" by simp
  with nonneg have "\<forall>x \<in> set (map val vs). x = 0"
    by (simp only: sum_list_nonneg_eq_0_iff)
  then show ?thesis by simp
qed

text \<open>
  C8. \<open>solve\<close> never fails with a division by zero, whatever the optimizer and the
  engine: the quotient \<open>objective_value / total_allocated\<close> is taken only when
  \<open>total_allocated > 0\<close>, and the return on investment is 0 otherwise. For an optimizer
  with total capital 0 whose model is built and solved to an Optimal solution that is
  feasible (every constraint satisfied, every variable within its bounds), \<open>solve\<close>
  returns the allocation 0 for every loan type, total allocated 0, net return 0 and
  \<open>roi_percentage\<close> 0.
\<close>

theorem zero_capital_roi:
  "BankLoanOptimizer_solve eng self \<noteq> Inl ZeroDivisionError
   \<and> bl_roi objective_value total_allocated
       = Inr (if total_allocated > 0 then objective_value / total_allocated else 0)
   \<and> (bl_model self = None \<and> total_funds self = 0
        \<and> BankLoanOptimizer_build_model self = Inr self'
        \<and> bl_model self' = Some m \<and> bl_variables self' = Some vars
        \<and> eng m = (StatusOptimal, val) \<and> lp_feasible val m vars
      \<longrightarrow> (\<exists>alloc s.
            BankLoanOptimizer_solve eng self =
              Inr ([(''status'', PStr ''Optimal''),
                    (''allocations'', PDict alloc),
                    (''total_allocated'', PNum 0),
                    (''net_return'', PNum 0),
                    (''roi_percentage'', PNum 0),
                    (''model'', PModel m)], s)
            \<and> fst ` set alloc = set (loan_types self)
            \<and> (\<forall>kv \<in> set alloc. snd kv = PNum 0)))"
proof (intro conjI impI)
  show "BankLoanOptimizer_solve eng self \<noteq> Inl ZeroDivisionError"
    by (rule bl_solve_not_zero_division)
  show "bl_roi objective_value total_allocated
       = Inr (if total_allocated > 0 then objective_value / total_allocated else 0)"
    by (rule bl_roi_eq)
next
  assume h: "bl_model self = None \<and> total_funds self = 0
        \<and> BankLoanOptimizer_build_model self = Inr self'
        \<and> bl_model self' = Some m \<and> bl_variables self' = Some vars
        \<and> eng m = (StatusOptimal, val) \<and> lp_feasible val m vars"
  let ?n = "length (loan_types self)"
  let ?vars = "bl_new_variables self"
  from h have fit: "bl_inputs_fit self" and m: "m = bl_model_of self" and vars: "vars = ?vars"
    by (auto simp: bl_build_model_eq split: if_splits)
  from h have fresh: "bl_model self = None" and funds: "total_funds self = 0"
    and e: "eng (bl_model_of self) = (StatusOptimal, val)"
    and feas: "lp_feasible val (bl_model_of self) ?vars"
    by (simp_all add: m vars)
  from feas funds have budget: "sum_list (map val ?vars) \<le> 0"
    by (simp add: lp_feasible_def bl_model_of_def Let_def constraint_holds_def lp_value_ones)
  from feas have "list_all (within_bounds val) ?vars" by (simp add: lp_feasible_def)
  then have bounds: "0 \<le> val v" if "v \<in> set ?vars" for v
    using that by (auto simp: list_all_iff within_bounds_def bl_new_variables_def new_variable_def)
  from feasible_zero_budget [OF budget bounds] have zero: "\<forall>v \<in> set ?vars. val v = 0" by simp
  then have zero_i: "val (?vars ! i) = 0" if "i < ?n" for i
    using that by simp
  let ?items = "map (\<lambda>i. (loan_types self ! i, val (?vars ! i))) [0..<?n]"
  let ?raw = "py_dictcomp ?items"
  let ?alloc = "map (\<lambda>(k, x). (k, PNum x)) ?raw"
  have items_zero: "\<forall>kv \<in> set ?items. snd kv = 0" using zero_i by auto
  with set_py_dictcomp [of ?items] have raw_zero: "\<forall>kv \<in> set ?raw. snd kv = 0" by blast
  then have total: "sum_list (map snd ?raw) = 0" by (intro sum_list_all_zero) simp
  have obj: "lp_value val (objective (bl_model_of self)) = 0"
    unfolding lp_value_def bl_model_of_def Let_def
    by (simp add: o_def) (rule sum_list_all_zero, simp add: zero_i)
  have keys: "fst ` set ?alloc = set (loan_types self)"
  proof -
    have "fst ` set ?alloc = fst ` set ?raw" by force
    also have "\<dots> = fst ` set ?items" by (rule keys_py_dictcomp)
    also have "\<dots> = set (map (\<lambda>i. loan_types self ! i) [0..<?n])" by force
    also have "\<dots> = set (loan_types self)" by (simp add: map_nth)
    finally show ?thesis .
  qed
  have vals: "\<forall>kv \<in> set ?alloc. snd kv = PNum 0" using raw_zero by auto
  have "BankLoanOptimizer_solve eng self =
              Inr ([(''status'', PStr ''Optimal''),
                    (''allocations'', PDict ?alloc),
                    (''total_allocated'', PNum 0),
                    (''net_return'', PNum 0),
                    (''roi_percentage'', PNum 0),
                    (''model'', PModel m)],
                   self\<lparr>bl_model := Some m, bl_variables := Some ?vars,
                        bl_solution := Some [(''status'', PStr ''Optimal''),
                    (''allocations'', PDict ?alloc),
                    (''total_allocated'', PNum 0),
                    (''net_return'', PNum 0),
                    (''roi_percentage'', PNum 0),
                    (''model'', PModel m)]\<rparr>)"
    using fit by (simp add: bl_solve_fresh [OF fresh] e Let_def total obj m)
  with keys vals show "\<exists>alloc s.
            BankLoanOptimizer_solve eng self =
              Inr ([(''status'', PStr ''Optimal''),
                    (''allocations'', PDict alloc),
                    (''total_allocated'', PNum 0),
                    (''net_return'', PNum 0),
                    (''roi_percentage'', PNum 0),
                    (''model'', PModel m)], s)
            \<and> fst ` set alloc = set (loan_types self)
            \<and> (\<forall>kv \<in> set alloc. snd kv = PNum 0)"
    by blast
qed


lemma lp_value_zero: "lp_value (\<lambda>v. 0) e = 0"
  by (induction e) (auto simp: lp_value_def)

theorem zero_capital_roi_witness:
  "\<exists>alloc s m.
     BankLoanOptimizer_solve (constant_engine StatusOptimal 0)
       (BankLoanOptimizer_init 0 None None None) =
       Inr ([(''status'', PStr ''Optimal''),
             (''allocations'', PDict alloc),
             (''total_allocated'', PNum 0),
             (''net_return'', PNum 0),
             (''roi_percentage'', PNum 0),
             (''model'', PModel m)], s)
     \<and> fst ` set alloc = {''Personal'', ''Car'', ''Home'', ''Farm'', ''Commercial''}"
proof -
  let ?self = "BankLoanOptimizer_init 0 None None None"
  let ?eng = "constant_engine StatusOptimal 0"
  let ?m = "bl_model_of ?self"
  let ?vars = "bl_new_variables ?self"
  let ?self' = "?self\<lparr>bl_model := Some ?m, bl_variables := Some ?vars\<rparr>"
  have fields: "bl_model ?self = None" "total_funds ?self = 0"
    "loan_types ?self = [''Personal'', ''Car'', ''Home'', ''Farm'', ''Commercial'']"
    by (simp_all add: BankLoanOptimizer_init_def py_or_def)
  have fit: "bl_inputs_fit ?self"
    by (simp add: bl_inputs_fit_def BankLoanOptimizer_init_def py_or_def)
  then have b: "BankLoanOptimizer_build_model ?self = Inr ?self'"
    by (simp add: bl_build_model_eq)
  have e: "?eng ?m = (StatusOptimal, (\<lambda>v. 0))" by (simp add: constant_engine_def)
  have feas: "lp_feasible (\<lambda>v. 0) ?m ?vars"
    by (simp add: lp_feasible_def bl_model_of_def Let_def constraint_holds_def lp_value_zero
        fields list_all_iff within_bounds_def bl_new_variables_def new_variable_def)
  have hyp: "bl_model ?self = None \<and> total_funds ?self = 0
        \<and> BankLoanOptimizer_build_model ?self = Inr ?self'
        \<and> bl_model ?self' = Some ?m \<and> bl_variables ?self' = Some ?vars
        \<and> ?eng ?m = (StatusOptimal, (\<lambda>v. 0)) \<and> lp_feasible (\<lambda>v. 0) ?m ?vars"
    using fields b e feas by simp
  from zero_capital_roi [of ?eng ?self 0 0 ?self' ?m ?vars "\<lambda>v. 0"] hyp
  have "\<exists>alloc s.
            BankLoanOptimizer_solve ?eng ?self =
              Inr ([(''status'', PStr ''Optimal''),
                    (''allocations'', PDict alloc),
                    (''total_allocated'', PNum 0),
                    (''net_return'', PNum 0),
                    (''roi_percentage'', PNum 0),
                    (''model'', PModel ?m)], s)
            \<and> fst ` set alloc = set (loan_types ?self)
            \<and> (\<forall>kv \<in> set alloc. snd kv = PNum 0)"
    by blast
  then show ?thesis unfolding fields by auto
qed

subsection \<open>The constructors\<close>

lemma py_or_empty: "py_or (Some []) d = py_or None d"
  by (simp add: py_or_def)

text \<open>
  C10. Each of the three constructors treats an empty list (or empty dictionary) passed for
  a collection parameter that has a default exactly as it treats the argument left out:
  the optimizer built is the same, it holds the textbook default (for the production
  model the six-period demand schedule and \<open>num_periods = 6\<close>), and the constructor, which
  has no failing branch, raises nothing.
\<close>

theorem constructors_empty_collection_is_omitted:
  "ProductionInventoryOptimizer_init (Some []) st dem = ProductionInventoryOptimizer_init None st dem
   \<and> ProductionInventoryOptimizer_init costs st (Some []) = ProductionInventoryOptimizer_init costs st None
   \<and> production_costs (ProductionInventoryOptimizer_init (Some []) st dem) = [50, 45, 55, 48, 52, 50]
   \<and> demands (ProductionInventoryOptimizer_init costs st (Some [])) = [100, 250, 190, 140, 220, 110]
   \<and> num_periods (ProductionInventoryOptimizer_init costs st (Some [])) = 6
   \<and> BankLoanOptimizer_init funds (Some []) ratios types = BankLoanOptimizer_init funds None ratios types
   \<and> BankLoanOptimizer_init funds rates (Some []) types = BankLoanOptimizer_init funds rates None types
   \<and> BankLoanOptimizer_init funds rates ratios (Some []) = BankLoanOptimizer_init funds rates ratios None
   \<and> interest_rates (BankLoanOptimizer_init funds (Some []) ratios types) = [0.14, 0.13, 0.12, 0.125, 0.10]
   \<and> bad_debt_ratios (BankLoanOptimizer_init funds rates (Some []) types) = [0.10, 0.07, 0.03, 0.05, 0.02]
   \<and> loan_types (BankLoanOptimizer_init funds rates ratios (Some []))
       = [''Personal'', ''Car'', ''Home'', ''Farm'', ''Commercial'']
   \<and> OilRefiningOptimizer_init crude cracker (Some []) limits margins
       = OilRefiningOptimizer_init crude cracker None limits margins
   \<and> OilRefiningOptimizer_init crude cracker octane (Some []) margins
       = OilRefiningOptimizer_init crude cracker octane None margins
   \<and> OilRefiningOptimizer_init crude cracker octane limits (Some [])
       = OilRefiningOptimizer_init crude cracker octane limits None
   \<and> octane_numbers (OilRefiningOptimizer_init crude cracker (Some []) limits margins)
       = [(''feedstock'', 82), (''cracker'', 98), (''regular'', 87), (''premium'', 89), (''super'', 92)]
   \<and> demand_limits (OilRefiningOptimizer_init crude cracker octane (Some []) margins)
       = [(''regular'', 50000), (''premium'', 30000), (''super'', 40000)]
   \<and> profit_margins (OilRefiningOptimizer_init crude cracker octane limits (Some []))
       = [(''regular'', 6.70), (''premium'', 7.20), (''super'', 8.10)]"
  by (simp add: ProductionInventoryOptimizer_init_def BankLoanOptimizer_init_def
      OilRefiningOptimizer_init_def py_or_empty Let_def) (simp add: py_or_def)

subsection \<open>The refinery model\<close>

lemma oil_vars_simps:
  "oil_var oil_new_variables ''feedstock'' ''regular'' = Inr (new_variable ''x_feed_regular'')"
  "oil_var oil_new_variables ''feedstock'' ''premium'' = Inr (new_variable ''x_feed_premium'')"
  "oil_var oil_new_variables ''feedstock'' ''super'' = Inr (new_variable ''x_feed_super'')"
  "oil_var oil_new_variables ''cracker'' ''regular'' = Inr (new_variable ''x_crack_regular'')"
  "oil_var oil_new_variables ''cracker'' ''premium'' = Inr (new_variable ''x_crack_premium'')"
  "oil_var oil_new_variables ''cracker'' ''super'' = Inr (new_variable ''x_crack_super'')"
  by (simp_all add: oil_var_def oil_new_variables_def py_lookup_def py_bind_def)

text \<open>
  C3 (the code at the failing input). With the octane numbers feedstock 80, cracker 100,
  regular 90, premium 92 and super 95, the three blending constraints that \<open>build_model\<close>
  emits (the last three of the model) still carry the coefficients \<open>-5, 11\<close>, \<open>-7, 9\<close> and
  \<open>-10, 6\<close> of the default octane numbers; the configured numbers would give \<open>-10, 10\<close>,
  \<open>-12, 8\<close> and \<open>-15, 5\<close>.
\<close>

theorem octane_constraints_ignore_octane_numbers:
  "map_sum id (\<lambda>s. map (\<lambda>c. (con_name c, con_expr c, con_operator c, con_rhs c))
                   (drop 5 (constraints (the (oil_model s)))))
     (OilRefiningOptimizer_build_model (OilRefiningOptimizer_init 1500000 200000
        (Some [(''feedstock'', 80), (''cracker'', 100), (''regular'', 90), (''premium'', 92),
               (''super'', 95)]) None None))
   = Inr [(''Octane_Regular'',
             [(new_variable ''x_feed_regular'', - 5), (new_variable ''x_crack_regular'', 11)],
             LpConstraintGE, 0),
          (''Octane_Premium'',
             [(new_variable ''x_feed_premium'', - 7), (new_variable ''x_crack_premium'', 9)],
             LpConstraintGE, 0),
          (''Octane_Super'',
             [(new_variable ''x_feed_super'', - 10), (new_variable ''x_crack_super'', 6)],
             LpConstraintGE, 0)]"
  by (simp add: OilRefiningOptimizer_build_model_def OilRefiningOptimizer_init_def py_or_def
      oil_total_profit_def oil_total_of_def oil_products_def oil_vars_simps py_bind_def
      py_lookup_def oil_octane_constraint_def add_constraint_def set_objective_def
      new_problem_def lp_add_def lp_scale_def Let_def)

subsection \<open>Closed forms of building and solving\<close>

lemma pi_objective_eq:
  assumes "length pvars = num_periods self" and "length ivars = num_periods self"
  shows "pi_objective self pvars ivars =
     (if num_periods self \<le> length (production_costs self)
      then Inr (map (\<lambda>i. (pvars ! i, production_costs self ! i)) [0..<num_periods self]
                @ map (\<lambda>i. (ivars ! i, storage_cost self)) [0..<num_periods self])
      else Inl IndexError)"
proof (cases "num_periods self \<le> length (production_costs self)")
  case False
  then show ?thesis by (simp add: pi_objective_Inl)
next
  case True
  have a: "py_listcomp (\<lambda>i. py_bind (py_getitem (production_costs self) i) (\<lambda>c.
         py_bind (py_getitem pvars i) (\<lambda>v. Inr (lp_scale c v)))) [0..<num_periods self]
        = Inr (map (\<lambda>i. [(pvars ! i, production_costs self ! i)]) [0..<num_periods self])"
    using assms True by (intro py_listcomp_Inr) (simp add: py_getitem_def lp_scale_def)
  have b: "py_listcomp (\<lambda>i. py_bind (py_getitem ivars i) (\<lambda>v. Inr (lp_scale (storage_cost self) v)))
       [0..<num_periods self]
        = Inr (map (\<lambda>i. [(ivars ! i, storage_cost self)]) [0..<num_periods self])"
    using assms by (intro py_listcomp_Inr) (simp add: py_getitem_def lp_scale_def)
  show ?thesis
    unfolding pi_objective_def a b using True
    by (simp add: lp_add_def lpSum_def concat_map_singleton)
qed

lemma pi_period_balance_eq:
  "pi_period_balance self pvars ivars i m =
     (if i - 1 < length ivars \<and> i < length pvars \<and> i < length ivars \<and> i < length (demands self)
      then Inr (m\<lparr>constraints := constraints m @ [pi_balance_row pvars ivars (demands self) i]\<rparr>)
      else Inl IndexError)"
  by (simp add: pi_period_balance_def py_getitem_def add_constraint_def pi_balance_row_def
      lp_sub_def lp_add_def lp_var_def)

lemma pi_balance_loop_eq:
  "pi_balance_loop self pvars ivars js m =
     (if \<forall>i \<in> set js. i - 1 < length ivars \<and> i < length pvars \<and> i < length ivars
                        \<and> i < length (demands self)
      then Inr (m\<lparr>constraints := constraints m @ map (pi_balance_row pvars ivars (demands self)) js\<rparr>)
      else Inl IndexError)"
proof (induction js arbitrary: m)
  case Nil
  then show ?case by simp
next
  case (Cons j js)
  show ?case
    by (simp add: pi_period_balance_eq Cons.IH)
qed

lemma pi_period_1_balance_eq:
  "pi_period_1_balance self pvars ivars m =
     (if 0 < length pvars \<and> 0 < length ivars \<and> 0 < length (demands self)
      then Inr (m\<lparr>constraints := constraints m @
             [\<lparr>con_expr = [(pvars ! 0, 1), (ivars ! 0, - 1)], con_operator = LpConstraintEQ,
               con_rhs = demands self ! 0, con_name = ''Period_1_Balance''\<rparr>]\<rparr>)
      else Inl IndexError)"
  by (simp add: pi_period_1_balance_def py_getitem_def add_constraint_def lp_sub_def lp_var_def)

lemma pi_build_model_eq:
  "ProductionInventoryOptimizer_build_model self =
     (if pi_inputs_fit self
      then Inr (self\<lparr>pi_model := Some (pi_model_of self),
                     production_vars := Some (pi_production_vars (num_periods self)),
                     inventory_vars := Some (pi_inventory_vars (num_periods self))\<rparr>)
      else Inl IndexError)"
proof -
  let ?n = "num_periods self"
  let ?pv = "pi_production_vars ?n" and ?iv = "pi_inventory_vars ?n"
  let ?ok = "\<forall>i \<in> set [1..<?n]. i - 1 < length ?iv \<and> i < length ?pv \<and> i < length ?iv
                        \<and> i < length (demands self)"
  have obj: "pi_objective self ?pv ?iv =
     (if ?n \<le> length (production_costs self)
      then Inr (map (\<lambda>i. (?pv ! i, production_costs self ! i)) [0..<?n]
                @ map (\<lambda>i. (?iv ! i, storage_cost self)) [0..<?n])
      else Inl IndexError)"
    by (rule pi_objective_eq) simp_all
  show ?thesis
  proof (cases "pi_inputs_fit self")
    case True
    then have ok: ?ok by (auto simp: pi_inputs_fit_def)
    have loop: "pi_balance_loop self ?pv ?iv [1..<?n] m =
        Inr (m\<lparr>constraints := constraints m @ map (pi_balance_row ?pv ?iv (demands self)) [1..<?n]\<rparr>)"
      for m
      by (subst pi_balance_loop_eq) (rule if_P [OF ok])
    from True have "demands self \<noteq> []" by (auto simp: pi_inputs_fit_def)
    with True show ?thesis
      unfolding ProductionInventoryOptimizer_build_model_def Let_def obj
      by (simp add: pi_period_1_balance_eq loop [unfolded One_nat_def]
          pi_inputs_fit_def pi_model_of_def Let_def set_objective_def new_problem_def)
  next
    case False
    consider (costs) "\<not> ?n \<le> length (production_costs self)"
      | (zero) "?n \<le> length (production_costs self)" "?n = 0"
      | (empty) "?n \<le> length (production_costs self)" "0 < ?n" "demands self = []"
      | (short) "?n \<le> length (production_costs self)" "0 < ?n" "demands self \<noteq> []"
          "\<not> ?n \<le> length (demands self)"
      using False by (auto simp: pi_inputs_fit_def)
    then have "ProductionInventoryOptimizer_build_model self = Inl IndexError"
    proof cases
      case costs
      then show ?thesis
        unfolding ProductionInventoryOptimizer_build_model_def Let_def obj by simp
    next
      case zero
      then show ?thesis
        unfolding ProductionInventoryOptimizer_build_model_def Let_def obj
        by (simp add: pi_period_1_balance_eq)
    next
      case empty
      then show ?thesis
        unfolding ProductionInventoryOptimizer_build_model_def Let_def obj
        by (simp add: pi_period_1_balance_eq)
    next
      case short
      then have "length (demands self) \<in> set [1..<?n]" by (cases "demands self") auto
      then have neg: "\<not> ?ok" by blast
      have loop: "pi_balance_loop self ?pv ?iv [1..<?n] m = Inl IndexError" for m
        by (subst pi_balance_loop_eq) (rule if_not_P [OF neg])
      from short show ?thesis
        unfolding ProductionInventoryOptimizer_build_model_def Let_def obj
        by (simp add: pi_period_1_balance_eq loop [unfolded One_nat_def])
    qed
    with False show ?thesis by simp
  qed
qed


lemma pi_solve_fresh:
  assumes "pi_model self0 = None"
  shows "ProductionInventoryOptimizer_solve eng self0 =
     (if pi_inputs_fit self0 then
        (let n = num_periods self0; m = pi_model_of self0;
             pvars = pi_production_vars n; ivars = pi_inventory_vars n;
             self = self0\<lparr>pi_model := Some m, production_vars := Some pvars,
                          inventory_vars := Some ivars\<rparr>;
             status = fst (eng m); val = snd (eng m)
         in if status = StatusOptimal then
              (let production_schedule = map (\<lambda>i. val (pvars ! i)) [0..<n];
                   inventory_schedule = map (\<lambda>i. val (ivars ! i)) [0..<n];
                   sol = [(''status'', PStr ''Optimal''),
                          (''production_schedule'', PList (map PNum production_schedule)),
                          (''inventory_schedule'', PList (map PNum inventory_schedule)),
                          (''total_cost'', PNum (lp_value val (objective m))),
                          (''production_cost'',
                             PNum (sum_list (map (\<lambda>i. production_costs self0 ! i
                                                         * production_schedule ! i) [0..<n]))),
                          (''storage_cost'',
                             PNum (sum_list (map (\<lambda>i. storage_cost self0
                                                         * inventory_schedule ! i) [0..<n]))),
                          (''model'', PModel m)]
               in Inr (sol, self\<lparr>pi_solution := Some sol\<rparr>))
            else Inr (pi_failure status, self\<lparr>pi_solution := Some (pi_failure status)\<rparr>))
      else Inl IndexError)"
proof (cases "pi_inputs_fit self0")
  case False
  with assms show ?thesis
    by (simp add: ProductionInventoryOptimizer_solve_def pi_build_model_eq)
next
  case True
  let ?n = "num_periods self0"
  let ?pv = "pi_production_vars ?n" and ?iv = "pi_inventory_vars ?n"
  have pvs: "py_listcomp (\<lambda>i. py_bind (py_getitem ?pv i) (\<lambda>v. Inr (val v))) [0..<?n]
      = Inr (map (\<lambda>i. val (?pv ! i)) [0..<?n])" for val :: "LpVariable \<Rightarrow> real"
    by (rule py_listcomp_Inr) (simp add: py_getitem_def)
  have ivs: "py_listcomp (\<lambda>i. py_bind (py_getitem ?iv i) (\<lambda>v. Inr (val v))) [0..<?n]
      = Inr (map (\<lambda>i. val (?iv ! i)) [0..<?n])" for val :: "LpVariable \<Rightarrow> real"
    by (rule py_listcomp_Inr) (simp add: py_getitem_def)
  have pc: "py_listcomp (\<lambda>i.
                  py_bind (py_getitem (production_costs self0) i) (\<lambda>c.
                  py_bind (py_getitem xs i) (\<lambda>x. Inr (c * x)))) [0..<?n]
      = Inr (map (\<lambda>i. production_costs self0 ! i * xs ! i) [0..<?n])"
    if "length xs = ?n" for xs :: "real list"
    using True that by (intro py_listcomp_Inr) (simp add: py_getitem_def pi_inputs_fit_def)
  have sc: "py_listcomp (\<lambda>i.
                  py_bind (py_getitem xs i) (\<lambda>x. Inr (storage_cost self0 * x))) [0..<?n]
      = Inr (map (\<lambda>i. storage_cost self0 * xs ! i) [0..<?n])"
    if "length xs = ?n" for xs :: "real list"
    using that by (intro py_listcomp_Inr) (simp add: py_getitem_def)
  show ?thesis
    using True assms
    by (simp add: ProductionInventoryOptimizer_solve_def pi_build_model_eq split_beta
        pvs ivs pc sc Let_def)
qed

lemma oil_total_profit_eq:
  "oil_total_profit self oil_new_variables =
     (if list_all (\<lambda>p. map_of (profit_margins self) p \<noteq> None) oil_products
      then Inr (concat (map (\<lambda>p. [(new_variable (''x_feed_'' @ p), the (map_of (profit_margins self) p)),
                           (new_variable (''x_crack_'' @ p), the (map_of (profit_margins self) p))])
                  oil_products))
      else Inl KeyError)"
  by (auto simp: oil_total_profit_def oil_products_def oil_vars_simps py_lookup_def lpSum_def
      lp_scale_expr_def lp_add_def lp_var_def split: option.splits)

lemma oil_total_of_eq:
  "oil_total_of oil_new_variables ''feedstock'' = Inr (map (\<lambda>p. (new_variable (''x_feed_'' @ p), 1)) oil_products)"
  "oil_total_of oil_new_variables ''cracker'' = Inr (map (\<lambda>p. (new_variable (''x_crack_'' @ p), 1)) oil_products)"
  by (simp_all add: oil_total_of_def oil_products_def oil_vars_simps lpSum_def lp_var_def)

lemma oil_demand_loop_eq:
  "oil_demand_loop self oil_new_variables oil_products m =
     (if list_all (\<lambda>p. map_of (demand_limits self) p \<noteq> None) oil_products
      then Inr (m\<lparr>constraints := constraints m @
                 map (\<lambda>p. oil_row (''Demand_'' @ p) p 1 1 LpConstraintLE
                      (the (map_of (demand_limits self) p))) oil_products\<rparr>)
      else Inl KeyError)"
  by (auto simp: oil_products_def oil_vars_simps py_lookup_def add_constraint_def oil_row_def
      lp_add_def lp_var_def split: option.splits)

lemma oil_octane_constraint_eq:
  "oil_octane_constraint oil_new_variables ''regular'' a b label m
     = Inr (m\<lparr>constraints := constraints m @ [oil_row label ''regular'' a b LpConstraintGE 0]\<rparr>)"
  "oil_octane_constraint oil_new_variables ''premium'' a b label m
     = Inr (m\<lparr>constraints := constraints m @ [oil_row label ''premium'' a b LpConstraintGE 0]\<rparr>)"
  "oil_octane_constraint oil_new_variables ''super'' a b label m
     = Inr (m\<lparr>constraints := constraints m @ [oil_row label ''super'' a b LpConstraintGE 0]\<rparr>)"
  by (simp_all add: oil_octane_constraint_def oil_vars_simps add_constraint_def oil_row_def
      lp_add_def lp_scale_def)

lemma oil_build_model_eq:
  "OilRefiningOptimizer_build_model self =
     (if oil_inputs_fit self
      then Inr (self\<lparr>oil_model := Some (oil_model_of self),
                     oil_variables := Some oil_new_variables\<rparr>)
      else Inl KeyError)"
  unfolding OilRefiningOptimizer_build_model_def Let_def oil_total_profit_eq oil_total_of_eq
    oil_demand_loop_eq
  by (simp add: oil_octane_constraint_eq oil_inputs_fit_def oil_model_of_def add_constraint_def
      set_objective_def new_problem_def lp_add_def lp_scale_expr_def o_def)


lemma oil_solve_fresh:
  assumes "oil_model self0 = None"
  shows "OilRefiningOptimizer_solve eng self0 =
     (if oil_inputs_fit self0 then
        (let m = oil_model_of self0;
             self = self0\<lparr>oil_model := Some m, oil_variables := Some oil_new_variables\<rparr>;
             status = fst (eng m); val = snd (eng m)
         in if status = StatusOptimal then
              (let sol = [(''status'', PStr ''Optimal''),
                          (''production'',
                             PDict (map (\<lambda>p. (p, PDict
                                [(''feedstock'', PNum (val (new_variable (''x_feed_'' @ p)))),
                                 (''cracker'', PNum (val (new_variable (''x_crack_'' @ p)))),
                                 (''total'', PNum (val (new_variable (''x_feed_'' @ p))
                                                   + val (new_variable (''x_crack_'' @ p))))]))
                              oil_products)),
                          (''total_profit'', PNum (lp_value val (objective m))),
                          (''daily_profit'', PNum (lp_value val (objective m))),
                          (''model'', PModel m)]
               in Inr (sol, self\<lparr>oil_solution := Some sol\<rparr>))
            else Inr (oil_failure status, self\<lparr>oil_solution := Some (oil_failure status)\<rparr>))
      else Inl KeyError)"
proof (cases "oil_inputs_fit self0")
  case False
  with assms show ?thesis
    by (simp add: OilRefiningOptimizer_solve_def oil_build_model_eq)
next
  case True
  with assms show ?thesis
    by (simp add: OilRefiningOptimizer_solve_def oil_build_model_eq split_beta Let_def
        oil_products_def oil_vars_simps py_dictcomp_def)
qed

subsection \<open>What solve returns\<close>

lemma bl_build_model_D:
  assumes "BankLoanOptimizer_build_model self = Inr self'"
  shows "bl_inputs_fit self"
    and "self' = self\<lparr>bl_model := Some (bl_model_of self),
                         bl_variables := Some (bl_new_variables self)\<rparr>"
  using assms by (auto simp: bl_build_model_eq split: if_splits)

lemma pi_build_model_D:
  assumes "ProductionInventoryOptimizer_build_model self = Inr self'"
  shows "pi_inputs_fit self"
    and "self' = self\<lparr>pi_model := Some (pi_model_of self),
                     production_vars := Some (pi_production_vars (num_periods self)),
                     inventory_vars := Some (pi_inventory_vars (num_periods self))\<rparr>"
  using assms by (auto simp: pi_build_model_eq split: if_splits)

lemma oil_build_model_D:
  assumes "OilRefiningOptimizer_build_model self = Inr self'"
  shows "oil_inputs_fit self"
    and "self' = self\<lparr>oil_model := Some (oil_model_of self),
                         oil_variables := Some oil_new_variables\<rparr>"
  using assms by (auto simp: oil_build_model_eq split: if_splits)

text \<open>
  C7. For each of the three optimizers, when the model has been built and the engine
  reports a status other than Optimal, \<open>solve\<close> raises nothing: it returns a dictionary
  with that status under \<open>status\<close>, the fixed error message, and (for the loan
  portfolio) \<open>allocations\<close> set to None, so no value in it is or holds a number.
  Conversely a dictionary returned by \<open>solve\<close> holds a number only when the engine
  reported Optimal.
\<close>

theorem non_optimal_status_is_returned:
  "(bl_model bself = None \<and> BankLoanOptimizer_build_model bself = Inr bself'
      \<and> bl_model bself' = Some bm \<and> fst (eng bm) \<noteq> StatusOptimal
    \<longrightarrow> BankLoanOptimizer_solve eng bself =
          Inr ([(''status'', PStr (LpStatus (fst (eng bm)))),
                (''allocations'', PNone),
                (''error'', PStr ''Optimization failed to find optimal solution'')],
               bself'\<lparr>bl_solution := Some
                 [(''status'', PStr (LpStatus (fst (eng bm)))),
                  (''allocations'', PNone),
                  (''error'', PStr ''Optimization failed to find optimal solution'')]\<rparr>))
   \<and> (pi_model pself = None \<and> ProductionInventoryOptimizer_build_model pself = Inr pself'
      \<and> pi_model pself' = Some pm \<and> fst (eng pm) \<noteq> StatusOptimal
    \<longrightarrow> ProductionInventoryOptimizer_solve eng pself =
          Inr ([(''status'', PStr (LpStatus (fst (eng pm)))),
                (''error'', PStr ''Optimization failed to find optimal solution'')],
               pself'\<lparr>pi_solution := Some
                 [(''status'', PStr (LpStatus (fst (eng pm)))),
                  (''error'', PStr ''Optimization failed to find optimal solution'')]\<rparr>))
   \<and> (oil_model oself = None \<and> OilRefiningOptimizer_build_model oself = Inr oself'
      \<and> oil_model oself' = Some om \<and> fst (eng om) \<noteq> StatusOptimal
    \<longrightarrow> OilRefiningOptimizer_solve eng oself =
          Inr ([(''status'', PStr (LpStatus (fst (eng om)))),
                (''error'', PStr ''Optimization failed to find optimal solution'')],
               oself'\<lparr>oil_solution := Some
                 [(''status'', PStr (LpStatus (fst (eng om)))),
                  (''error'', PStr ''Optimization failed to find optimal solution'')]\<rparr>))
   \<and> (bl_model bself = None \<and> BankLoanOptimizer_build_model bself = Inr bself'
      \<and> bl_model bself' = Some bm \<and> BankLoanOptimizer_solve eng bself = Inr (sol, bs)
      \<and> list_ex (\<lambda>kv. has_number (snd kv)) sol
    \<longrightarrow> fst (eng bm) = StatusOptimal)
   \<and> (pi_model pself = None \<and> ProductionInventoryOptimizer_build_model pself = Inr pself'
      \<and> pi_model pself' = Some pm \<and> ProductionInventoryOptimizer_solve eng pself = Inr (sol, ps)
      \<and> list_ex (\<lambda>kv. has_number (snd kv)) sol
    \<longrightarrow> fst (eng pm) = StatusOptimal)
   \<and> (oil_model oself = None \<and> OilRefiningOptimizer_build_model oself = Inr oself'
      \<and> oil_model oself' = Some om \<and> OilRefiningOptimizer_solve eng oself = Inr (sol, os)
      \<and> list_ex (\<lambda>kv. has_number (snd kv)) sol
    \<longrightarrow> fst (eng om) = StatusOptimal)"
proof (intro conjI impI)
  assume h: "bl_model bself = None \<and> BankLoanOptimizer_build_model bself = Inr bself'
      \<and> bl_model bself' = Some bm \<and> fst (eng bm) \<noteq> StatusOptimal"
  then have b: "BankLoanOptimizer_build_model bself = Inr bself'" by simp
  from bl_build_model_D [OF b] h
  show "BankLoanOptimizer_solve eng bself =
          Inr ([(''status'', PStr (LpStatus (fst (eng bm)))),
                (''allocations'', PNone),
                (''error'', PStr ''Optimization failed to find optimal solution'')],
               bself'\<lparr>bl_solution := Some
                 [(''status'', PStr (LpStatus (fst (eng bm)))),
                  (''allocations'', PNone),
                  (''error'', PStr ''Optimization failed to find optimal solution'')]\<rparr>)"
    by (simp add: bl_solve_fresh Let_def bl_failure_def)
next
  assume h: "pi_model pself = None \<and> ProductionInventoryOptimizer_build_model pself = Inr pself'
      \<and> pi_model pself' = Some pm \<and> fst (eng pm) \<noteq> StatusOptimal"
  then have b: "ProductionInventoryOptimizer_build_model pself = Inr pself'" by simp
  from pi_build_model_D [OF b] h
  show "ProductionInventoryOptimizer_solve eng pself =
          Inr ([(''status'', PStr (LpStatus (fst (eng pm)))),
                (''error'', PStr ''Optimization failed to find optimal solution'')],
               pself'\<lparr>pi_solution := Some
                 [(''status'', PStr (LpStatus (fst (eng pm)))),
                  (''error'', PStr ''Optimization failed to find optimal solution'')]\<rparr>)"
    by (simp add: pi_solve_fresh Let_def pi_failure_def)
next
  assume h: "oil_model oself = None \<and> OilRefiningOptimizer_build_model oself = Inr oself'
      \<and> oil_model oself' = Some om \<and> fst (eng om) \<noteq> StatusOptimal"
  then have b: "OilRefiningOptimizer_build_model oself = Inr oself'" by simp
  from oil_build_model_D [OF b] h
  show "OilRefiningOptimizer_solve eng oself =
          Inr ([(''status'', PStr (LpStatus (fst (eng om)))),
                (''error'', PStr ''Optimization failed to find optimal solution'')],
               oself'\<lparr>oil_solution := Some
                 [(''status'', PStr (LpStatus (fst (eng om)))),
                  (''error'', PStr ''Optimization failed to find optimal solution'')]\<rparr>)"
    by (simp add: oil_solve_fresh Let_def oil_failure_def)
next
  assume h: "bl_model bself = None \<and> BankLoanOptimizer_build_model bself = Inr bself'
      \<and> bl_model bself' = Some bm \<and> BankLoanOptimizer_solve eng bself = Inr (sol, bs)
      \<and> list_ex (\<lambda>kv. has_number (snd kv)) sol"
  then have b: "BankLoanOptimizer_build_model bself = Inr bself'" by simp
  show "fst (eng bm) = StatusOptimal"
  proof (rule ccontr)
    assume non: "fst (eng bm) \<noteq> StatusOptimal"
    from h have fresh: "bl_model bself = None" and s: "BankLoanOptimizer_solve eng bself = Inr (sol, bs)"
      and nums: "list_ex (\<lambda>kv. has_number (snd kv)) sol" by simp_all
    from bl_build_model_D [OF b] h have fit: "bl_inputs_fit bself" and m: "bm = bl_model_of bself"
      by simp_all
    from s fit non have "sol = bl_failure (fst (eng bm))"
      unfolding bl_solve_fresh [OF fresh] m by (simp add: Let_def)
    with nums show False by (simp add: bl_failure_def)
  qed
next
  assume h: "pi_model pself = None \<and> ProductionInventoryOptimizer_build_model pself = Inr pself'
      \<and> pi_model pself' = Some pm \<and> ProductionInventoryOptimizer_solve eng pself = Inr (sol, ps)
      \<and> list_ex (\<lambda>kv. has_number (snd kv)) sol"
  then have b: "ProductionInventoryOptimizer_build_model pself = Inr pself'" by simp
  show "fst (eng pm) = StatusOptimal"
  proof (rule ccontr)
    assume non: "fst (eng pm) \<noteq> StatusOptimal"
    from h have fresh: "pi_model pself = None" and s: "ProductionInventoryOptimizer_solve eng pself = Inr (sol, ps)"
      and nums: "list_ex (\<lambda>kv. has_number (snd kv)) sol" by simp_all
    from pi_build_model_D [OF b] h have fit: "pi_inputs_fit pself" and m: "pm = pi_model_of pself"
      by simp_all
    from s fit non have "sol = pi_failure (fst (eng pm))"
      unfolding pi_solve_fresh [OF fresh] m by (simp add: Let_def)
    with nums show False by (simp add: pi_failure_def)
  qed
next
  assume h: "oil_model oself = None \<and> OilRefiningOptimizer_build_model oself = Inr oself'
      \<and> oil_model oself' = Some om \<and> OilRefiningOptimizer_solve eng oself = Inr (sol, os)
      \<and> list_ex (\<lambda>kv. has_number (snd kv)) sol"
  then have b: "OilRefiningOptimizer_build_model oself = Inr oself'" by simp
  show "fst (eng om) = StatusOptimal"
  proof (rule ccontr)
    assume non: "fst (eng om) \<noteq> StatusOptimal"
    from h have fresh: "oil_model oself = None" and s: "OilRefiningOptimizer_solve eng oself = Inr (sol, os)"
      and nums: "list_ex (\<lambda>kv. has_number (snd kv)) sol" by simp_all
    from oil_build_model_D [OF b] h have fit: "oil_inputs_fit oself" and m: "om = oil_model_of oself"
      by simp_all
    from s fit non have "sol = oil_failure (fst (eng om))"
      unfolding oil_solve_fresh [OF fresh] m by (simp add: Let_def)
    with nums show False by (simp add: oil_failure_def)
  qed
qed


lemma default_optimizers_fit:
  "bl_inputs_fit (BankLoanOptimizer_init funds None None None)"
  "pi_inputs_fit (ProductionInventoryOptimizer_init None st None)"
  "oil_inputs_fit (OilRefiningOptimizer_init crude cracker None None None)"
proof -
  show "bl_inputs_fit (BankLoanOptimizer_init funds None None None)"
    by (simp add: bl_inputs_fit_def BankLoanOptimizer_init_def py_or_def)
  show "pi_inputs_fit (ProductionInventoryOptimizer_init None st None)"
    by (simp add: pi_inputs_fit_def ProductionInventoryOptimizer_init_def py_or_def Let_def)
  show "oil_inputs_fit (OilRefiningOptimizer_init crude cracker None None None)"
    by (simp add: oil_inputs_fit_def OilRefiningOptimizer_init_def oil_products_def py_or_def
        del: not_None_eq)
qed

lemma fresh_optimizers:
  "bl_model (BankLoanOptimizer_init funds rates ratios types) = None"
  "pi_model (ProductionInventoryOptimizer_init costs st dem) = None"
  "oil_model (OilRefiningOptimizer_init crude cracker octane limits margins) = None"
  by (simp_all add: BankLoanOptimizer_init_def ProductionInventoryOptimizer_init_def
      OilRefiningOptimizer_init_def Let_def)

theorem non_optimal_status_is_returned_witness:
  "(\<exists>s. BankLoanOptimizer_solve (constant_engine StatusInfeasible 0)
          (BankLoanOptimizer_init 12000000 None None None) =
        Inr ([(''status'', PStr ''Infeasible''),
              (''allocations'', PNone),
              (''error'', PStr ''Optimization failed to find optimal solution'')], s))
   \<and> (\<exists>s. ProductionInventoryOptimizer_solve (constant_engine StatusUnbounded 0)
          (ProductionInventoryOptimizer_init None 8 None) =
        Inr ([(''status'', PStr ''Unbounded''),
              (''error'', PStr ''Optimization failed to find optimal solution'')], s))
   \<and> (\<exists>s. OilRefiningOptimizer_solve (constant_engine StatusUndefined 0)
          (OilRefiningOptimizer_init 1500000 200000 None None None) =
        Inr ([(''status'', PStr ''Undefined''),
              (''error'', PStr ''Optimization failed to find optimal solution'')], s))"
proof (intro conjI)
  let ?b = "BankLoanOptimizer_init 12000000 None None None"
  let ?b' = "?b\<lparr>bl_model := Some (bl_model_of ?b), bl_variables := Some (bl_new_variables ?b)\<rparr>"
  have "bl_model ?b = None \<and> BankLoanOptimizer_build_model ?b = Inr ?b'
      \<and> bl_model ?b' = Some (bl_model_of ?b)
      \<and> fst (constant_engine StatusInfeasible 0 (bl_model_of ?b)) \<noteq> StatusOptimal"
    by (simp add: fresh_optimizers bl_build_model_eq default_optimizers_fit constant_engine_def)
  with non_optimal_status_is_returned
    [where bself = ?b and bself' = ?b' and bm = "bl_model_of ?b"
       and eng = "constant_engine StatusInfeasible 0"]
  show "\<exists>s. BankLoanOptimizer_solve (constant_engine StatusInfeasible 0) ?b =
        Inr ([(''status'', PStr ''Infeasible''),
              (''allocations'', PNone),
              (''error'', PStr ''Optimization failed to find optimal solution'')], s)"
    by (simp add: constant_engine_def)
next
  let ?p = "ProductionInventoryOptimizer_init None 8 None"
  let ?p' = "?p\<lparr>pi_model := Some (pi_model_of ?p),
                  production_vars := Some (pi_production_vars (num_periods ?p)),
                  inventory_vars := Some (pi_inventory_vars (num_periods ?p))\<rparr>"
  have "pi_model ?p = None \<and> ProductionInventoryOptimizer_build_model ?p = Inr ?p'
      \<and> pi_model ?p' = Some (pi_model_of ?p)
      \<and> fst (constant_engine StatusUnbounded 0 (pi_model_of ?p)) \<noteq> StatusOptimal"
    by (simp add: fresh_optimizers pi_build_model_eq default_optimizers_fit constant_engine_def)
  with non_optimal_status_is_returned
    [where pself = ?p and pself' = ?p' and pm = "pi_model_of ?p"
       and eng = "constant_engine StatusUnbounded 0"]
  show "\<exists>s. ProductionInventoryOptimizer_solve (constant_engine StatusUnbounded 0) ?p =
        Inr ([(''status'', PStr ''Unbounded''),
              (''error'', PStr ''Optimization failed to find optimal solution'')], s)"
    by (simp add: constant_engine_def)
next
  let ?o = "OilRefiningOptimizer_init 1500000 200000 None None None"
  let ?o' = "?o\<lparr>oil_model := Some (oil_model_of ?o), oil_variables := Some oil_new_variables\<rparr>"
  have "oil_model ?o = None \<and> OilRefiningOptimizer_build_model ?o = Inr ?o'
      \<and> oil_model ?o' = Some (oil_model_of ?o)
      \<and> fst (constant_engine StatusUndefined 0 (oil_model_of ?o)) \<noteq> StatusOptimal"
    by (simp add: fresh_optimizers oil_build_model_eq default_optimizers_fit constant_engine_def)
  with non_optimal_status_is_returned
    [where oself = ?o and oself' = ?o' and om = "oil_model_of ?o"
       and eng = "constant_engine StatusUndefined 0"]
  show "\<exists>s. OilRefiningOptimizer_solve (constant_engine StatusUndefined 0) ?o =
        Inr ([(''status'', PStr ''Undefined''),
              (''error'', PStr ''Optimization failed to find optimal solution'')], s)"
    by (simp add: constant_engine_def)
qed

subsection \<open>No validation after extraction\<close>

text \<open>
  C4 (as amended). After extracting the variable values of an Optimal solution, no
  optimizer's \<open>solve\<close> recomputes or checks any constraint: for every assignment the
  engine reports as Optimal, feasible or not, \<open>solve\<close> returns the status Optimal with
  the values read off that assignment (allocations, schedules, production, totals and the
  objective value computed from them), and raises no error.
\<close>

theorem solve_returns_engine_values_unchecked:
  "(bl_model bself = None \<and> BankLoanOptimizer_build_model bself = Inr bself'
      \<and> bl_model bself' = Some bm \<and> bl_variables bself' = Some bvars
      \<and> eng bm = (StatusOptimal, val)
    \<longrightarrow> (\<exists>s allocations total_allocated.
          allocations = py_dictcomp (map (\<lambda>i. (loan_types bself ! i, val (bvars ! i)))
                                       [0..<length (loan_types bself)])
        \<and> total_allocated = sum_list (map snd allocations)
        \<and> BankLoanOptimizer_solve eng bself =
            Inr ([(''status'', PStr ''Optimal''),
                  (''allocations'', PDict (map (\<lambda>(k, x). (k, PNum x)) allocations)),
                  (''total_allocated'', PNum total_allocated),
                  (''net_return'', PNum (lp_value val (objective bm))),
                  (''roi_percentage'',
                     PNum ((if total_allocated > 0
                            then lp_value val (objective bm) / total_allocated else 0) * 100)),
                  (''model'', PModel bm)], s)))
   \<and> (pi_model pself = None \<and> ProductionInventoryOptimizer_build_model pself = Inr pself'
      \<and> pi_model pself' = Some pm \<and> production_vars pself' = Some pvars
      \<and> inventory_vars pself' = Some ivars \<and> eng pm = (StatusOptimal, val)
    \<longrightarrow> (\<exists>s. ProductionInventoryOptimizer_solve eng pself =
            Inr ([(''status'', PStr ''Optimal''),
                  (''production_schedule'',
                     PList (map (\<lambda>i. PNum (val (pvars ! i))) [0..<num_periods pself])),
                  (''inventory_schedule'',
                     PList (map (\<lambda>i. PNum (val (ivars ! i))) [0..<num_periods pself])),
                  (''total_cost'', PNum (lp_value val (objective pm))),
                  (''production_cost'',
                     PNum (sum_list (map (\<lambda>i. production_costs pself ! i * val (pvars ! i))
                                       [0..<num_periods pself]))),
                  (''storage_cost'',
                     PNum (sum_list (map (\<lambda>i. storage_cost pself * val (ivars ! i))
                                       [0..<num_periods pself]))),
                  (''model'', PModel pm)], s)))
   \<and> (oil_model oself = None \<and> OilRefiningOptimizer_build_model oself = Inr oself'
      \<and> oil_model oself' = Some om \<and> eng om = (StatusOptimal, val)
    \<longrightarrow> (\<exists>s. OilRefiningOptimizer_solve eng oself =
            Inr ([(''status'', PStr ''Optimal''),
                  (''production'',
                     PDict (map (\<lambda>p. (p, PDict
                        [(''feedstock'', PNum (val (new_variable (''x_feed_'' @ p)))),
                         (''cracker'', PNum (val (new_variable (''x_crack_'' @ p)))),
                         (''total'', PNum (val (new_variable (''x_feed_'' @ p))
                                           + val (new_variable (''x_crack_'' @ p))))]))
                       [''regular'', ''premium'', ''super''])),
                  (''total_profit'', PNum (lp_value val (objective om))),
                  (''daily_profit'', PNum (lp_value val (objective om))),
                  (''model'', PModel om)], s)))"
proof (intro conjI impI)
  assume h: "bl_model bself = None \<and> BankLoanOptimizer_build_model bself = Inr bself'
      \<and> bl_model bself' = Some bm \<and> bl_variables bself' = Some bvars
      \<and> eng bm = (StatusOptimal, val)"
  then have b: "BankLoanOptimizer_build_model bself = Inr bself'"
    and fresh: "bl_model bself = None" by simp_all
  from bl_build_model_D [OF b] h have fit: "bl_inputs_fit bself"
    and m: "bm = bl_model_of bself" and v: "bvars = bl_new_variables bself"
    and e: "eng (bl_model_of bself) = (StatusOptimal, val)" by auto
  show "\<exists>s allocations total_allocated.
          allocations = py_dictcomp (map (\<lambda>i. (loan_types bself ! i, val (bvars ! i)))
                                       [0..<length (loan_types bself)])
        \<and> total_allocated = sum_list (map snd allocations)
        \<and> BankLoanOptimizer_solve eng bself =
            Inr ([(''status'', PStr ''Optimal''),
                  (''allocations'', PDict (map (\<lambda>(k, x). (k, PNum x)) allocations)),
                  (''total_allocated'', PNum total_allocated),
                  (''net_return'', PNum (lp_value val (objective bm))),
                  (''roi_percentage'',
                     PNum ((if total_allocated > 0
                            then lp_value val (objective bm) / total_allocated else 0) * 100)),
                  (''model'', PModel bm)], s)"
    unfolding bl_solve_fresh [OF fresh] m v using fit by (simp add: e Let_def)
next
  assume h: "pi_model pself = None \<and> ProductionInventoryOptimizer_build_model pself = Inr pself'
      \<and> pi_model pself' = Some pm \<and> production_vars pself' = Some pvars
      \<and> inventory_vars pself' = Some ivars \<and> eng pm = (StatusOptimal, val)"
  then have b: "ProductionInventoryOptimizer_build_model pself = Inr pself'"
    and fresh: "pi_model pself = None" by simp_all
  from pi_build_model_D [OF b] h have fit: "pi_inputs_fit pself"
    and m: "pm = pi_model_of pself" and pv: "pvars = pi_production_vars (num_periods pself)"
    and iv: "ivars = pi_inventory_vars (num_periods pself)"
    and e: "eng (pi_model_of pself) = (StatusOptimal, val)" by auto
  show "\<exists>s. ProductionInventoryOptimizer_solve eng pself =
            Inr ([(''status'', PStr ''Optimal''),
                  (''production_schedule'',
                     PList (map (\<lambda>i. PNum (val (pvars ! i))) [0..<num_periods pself])),
                  (''inventory_schedule'',
                     PList (map (\<lambda>i. PNum (val (ivars ! i))) [0..<num_periods pself])),
                  (''total_cost'', PNum (lp_value val (objective pm))),
                  (''production_cost'',
                     PNum (sum_list (map (\<lambda>i. production_costs pself ! i * val (pvars ! i))
                                       [0..<num_periods pself]))),
                  (''storage_cost'',
                     PNum (sum_list (map (\<lambda>i. storage_cost pself * val (ivars ! i))
                                       [0..<num_periods pself]))),
                  (''model'', PModel pm)], s)"
  proof -
    let ?n = "num_periods pself"
    have pc: "sum_list (map (\<lambda>i. production_costs pself ! i
                 * map (\<lambda>i. val (pi_production_vars ?n ! i)) [0..<?n] ! i) [0..<?n])
        = sum_list (map (\<lambda>i. production_costs pself ! i * val (pi_production_vars ?n ! i))
                      [0..<?n])"
      by (intro arg_cong [where f = sum_list] map_cong) simp_all
    have sc: "sum_list (map (\<lambda>i. storage_cost pself
                 * map (\<lambda>i. val (pi_inventory_vars ?n ! i)) [0..<?n] ! i) [0..<?n])
        = sum_list (map (\<lambda>i. storage_cost pself * val (pi_inventory_vars ?n ! i)) [0..<?n])"
      by (intro arg_cong [where f = sum_list] map_cong) simp_all
    show ?thesis
      unfolding pi_solve_fresh [OF fresh] m pv iv using fit
      by (simp add: e Let_def o_def pc sc)
  qed
next
  assume h: "oil_model oself = None \<and> OilRefiningOptimizer_build_model oself = Inr oself'
      \<and> oil_model oself' = Some om \<and> eng om = (StatusOptimal, val)"
  then have b: "OilRefiningOptimizer_build_model oself = Inr oself'"
    and fresh: "oil_model oself = None" by simp_all
  from oil_build_model_D [OF b] h have fit: "oil_inputs_fit oself"
    and m: "om = oil_model_of oself"
    and e: "eng (oil_model_of oself) = (StatusOptimal, val)" by auto
  show "\<exists>s. OilRefiningOptimizer_solve eng oself =
            Inr ([(''status'', PStr ''Optimal''),
                  (''production'',
                     PDict (map (\<lambda>p. (p, PDict
                        [(''feedstock'', PNum (val (new_variable (''x_feed_'' @ p)))),
                         (''cracker'', PNum (val (new_variable (''x_crack_'' @ p)))),
                         (''total'', PNum (val (new_variable (''x_feed_'' @ p))
                                           + val (new_variable (''x_crack_'' @ p))))]))
                       [''regular'', ''premium'', ''super''])),
                  (''total_profit'', PNum (lp_value val (objective om))),
                  (''daily_profit'', PNum (lp_value val (objective om))),
                  (''model'', PModel om)], s)"
    unfolding oil_solve_fresh [OF fresh] m using fit
    by (simp add: e Let_def oil_products_def)
qed


lemma default_bank_fields:
  "loan_types (BankLoanOptimizer_init funds None None None)
     = [''Personal'', ''Car'', ''Home'', ''Farm'', ''Commercial'']"
  "interest_rates (BankLoanOptimizer_init funds None None None) = [0.14, 0.13, 0.12, 0.125, 0.10]"
  "bad_debt_ratios (BankLoanOptimizer_init funds None None None) = [0.10, 0.07, 0.03, 0.05, 0.02]"
  "total_funds (BankLoanOptimizer_init funds None None None) = funds"
  by (simp_all add: BankLoanOptimizer_init_def py_or_def)

lemma upt_5: "[0..<5] = [0, 1, 2, 3, 4]"
  by (simp add: upt_rec)

theorem solve_returns_engine_values_unchecked_witness:
  "solution_get (BankLoanOptimizer_solve (constant_engine StatusOptimal 20000000)
       (BankLoanOptimizer_init 12000000 None None None)) ''allocations''
     = Inr (Some (PDict [(''Personal'', PNum 20000000), (''Car'', PNum 20000000),
                         (''Home'', PNum 20000000), (''Farm'', PNum 20000000),
                         (''Commercial'', PNum 20000000)]))
   \<and> solution_get (ProductionInventoryOptimizer_solve (constant_engine StatusOptimal (- 5))
       (ProductionInventoryOptimizer_init (Some [10, 12]) 2 (Some [100, 100])))
       ''production_schedule''
     = Inr (Some (PList [PNum (- 5), PNum (- 5)]))
   \<and> solution_get (OilRefiningOptimizer_solve (constant_engine StatusOptimal 1000000)
       (OilRefiningOptimizer_init 1500000 200000 None None None)) ''production''
     = Inr (Some (PDict
         [(''regular'', PDict [(''feedstock'', PNum 1000000), (''cracker'', PNum 1000000),
                               (''total'', PNum 2000000)]),
          (''premium'', PDict [(''feedstock'', PNum 1000000), (''cracker'', PNum 1000000),
                               (''total'', PNum 2000000)]),
          (''super'', PDict [(''feedstock'', PNum 1000000), (''cracker'', PNum 1000000),
                             (''total'', PNum 2000000)])]))"
proof (intro conjI)
  let ?b = "BankLoanOptimizer_init 12000000 None None None"
  let ?b' = "?b\<lparr>bl_model := Some (bl_model_of ?b), bl_variables := Some (bl_new_variables ?b)\<rparr>"
  let ?eng = "constant_engine StatusOptimal 20000000"
  have hyp: "bl_model ?b = None \<and> BankLoanOptimizer_build_model ?b = Inr ?b'
      \<and> bl_model ?b' = Some (bl_model_of ?b) \<and> bl_variables ?b' = Some (bl_new_variables ?b)
      \<and> ?eng (bl_model_of ?b) = (StatusOptimal, (\<lambda>v. 20000000))"
    by (simp add: fresh_optimizers bl_build_model_eq default_optimizers_fit constant_engine_def)
  note t = solve_returns_engine_values_unchecked
    [where bself = ?b and bself' = ?b' and bm = "bl_model_of ?b"
       and bvars = "bl_new_variables ?b" and eng = ?eng and val = "\<lambda>v. 20000000"]
  from mp [OF conjunct1 [OF t] hyp]
  show "solution_get (BankLoanOptimizer_solve ?eng ?b) ''allocations''
     = Inr (Some (PDict [(''Personal'', PNum 20000000), (''Car'', PNum 20000000),
                         (''Home'', PNum 20000000), (''Farm'', PNum 20000000),
                         (''Commercial'', PNum 20000000)]))"
    apply (elim exE conjE)
    apply (simp add: solution_get_def default_bank_fields upt_5 py_dictcomp_def)
    done
next
  let ?p = "ProductionInventoryOptimizer_init (Some [10, 12]) 2 (Some [100, 100])"
  let ?p' = "?p\<lparr>pi_model := Some (pi_model_of ?p),
                  production_vars := Some (pi_production_vars (num_periods ?p)),
                  inventory_vars := Some (pi_inventory_vars (num_periods ?p))\<rparr>"
  let ?eng = "constant_engine StatusOptimal (- 5)"
  have n: "num_periods ?p = 2"
    by (simp add: ProductionInventoryOptimizer_init_def py_or_def Let_def)
  have fit: "pi_inputs_fit ?p"
    by (simp add: pi_inputs_fit_def ProductionInventoryOptimizer_init_def py_or_def Let_def)
  have hyp: "pi_model ?p = None \<and> ProductionInventoryOptimizer_build_model ?p = Inr ?p'
      \<and> pi_model ?p' = Some (pi_model_of ?p)
      \<and> production_vars ?p' = Some (pi_production_vars (num_periods ?p))
      \<and> inventory_vars ?p' = Some (pi_inventory_vars (num_periods ?p))
      \<and> ?eng (pi_model_of ?p) = (StatusOptimal, (\<lambda>v. - 5))"
    by (simp add: fresh_optimizers pi_build_model_eq fit constant_engine_def)
  note t = solve_returns_engine_values_unchecked
    [where pself = ?p and pself' = ?p' and pm = "pi_model_of ?p"
       and pvars = "pi_production_vars (num_periods ?p)"
       and ivars = "pi_inventory_vars (num_periods ?p)" and eng = ?eng and val = "\<lambda>v. - 5"]
  from mp [OF conjunct1 [OF conjunct2 [OF t]] hyp]
  show "solution_get (ProductionInventoryOptimizer_solve ?eng ?p) ''production_schedule''
     = Inr (Some (PList [PNum (- 5), PNum (- 5)]))"
    apply (elim exE)
    apply (simp add: solution_get_def n upt_2)
    done
next
  let ?o = "OilRefiningOptimizer_init 1500000 200000 None None None"
  let ?o' = "?o\<lparr>oil_model := Some (oil_model_of ?o), oil_variables := Some oil_new_variables\<rparr>"
  let ?eng = "constant_engine StatusOptimal 1000000"
  have hyp: "oil_model ?o = None \<and> OilRefiningOptimizer_build_model ?o = Inr ?o'
      \<and> oil_model ?o' = Some (oil_model_of ?o)
      \<and> ?eng (oil_model_of ?o) = (StatusOptimal, (\<lambda>v. 1000000))"
    by (simp add: fresh_optimizers oil_build_model_eq default_optimizers_fit constant_engine_def)
  note t = solve_returns_engine_values_unchecked
    [where oself = ?o and oself' = ?o' and om = "oil_model_of ?o" and eng = ?eng
       and val = "\<lambda>v. 1000000"]
  from mp [OF conjunct2 [OF conjunct2 [OF t]] hyp]
  show "solution_get (OilRefiningOptimizer_solve ?eng ?o) ''production''
     = Inr (Some (PDict
         [(''regular'', PDict [(''feedstock'', PNum 1000000), (''cracker'', PNum 1000000),
                               (''total'', PNum 2000000)]),
          (''premium'', PDict [(''feedstock'', PNum 1000000), (''cracker'', PNum 1000000),
                               (''total'', PNum 2000000)]),
          (''super'', PDict [(''feedstock'', PNum 1000000), (''cracker'', PNum 1000000),
                             (''total'', PNum 2000000)])]))"
    apply (elim exE)
    apply (simp add: solution_get_def)
    done
qed

text \<open>
  The default loan portfolio with an engine that reports Optimal and gives every variable
  the value 20,000,000: \<open>solve\<close> returns status Optimal and total allocated 100,000,000,
  although the first constraint of the model it solved is the budget
  \<open>\<Sum> x \<le> 12,000,000\<close>, whose left-hand side is 100,000,000 at these values and which
  \<open>calculate_constraint_violations\<close> reports as violated by 88,000,000 at tolerance
  \<open>1e-6\<close>.
\<close>

theorem solve_accepts_violating_solution_counterexample:
  "solution_get (BankLoanOptimizer_solve (constant_engine StatusOptimal 20000000)
       (BankLoanOptimizer_init 12000000 None None None)) ''status''
     = Inr (Some (PStr ''Optimal''))
   \<and> solution_get (BankLoanOptimizer_solve (constant_engine StatusOptimal 20000000)
       (BankLoanOptimizer_init 12000000 None None None)) ''total_allocated''
     = Inr (Some (PNum 100000000))
   \<and> solution_get (BankLoanOptimizer_solve (constant_engine StatusOptimal 20000000)
       (BankLoanOptimizer_init 12000000 None None None)) ''model''
     = Inr (Some (PModel (bl_model_of (BankLoanOptimizer_init 12000000 None None None))))
   \<and> con_name (hd (constraints (bl_model_of (BankLoanOptimizer_init 12000000 None None None))))
     = ''Total_Funds_Constraint''
   \<and> con_operator (hd (constraints (bl_model_of (BankLoanOptimizer_init 12000000 None None None))))
     = LpConstraintLE
   \<and> con_rhs (hd (constraints (bl_model_of (BankLoanOptimizer_init 12000000 None None None))))
     = 12000000
   \<and> lp_value (snd (constant_engine StatusOptimal 20000000
                      (bl_model_of (BankLoanOptimizer_init 12000000 None None None))))
        (con_expr (hd (constraints (bl_model_of (BankLoanOptimizer_init 12000000 None None None)))))
     = 100000000
   \<and> calculate_constraint_violations 100000000 12000000 ''<='' (1 / 1000000)
     = Inr (False, 88000000)"
proof -
  let ?b = "BankLoanOptimizer_init 12000000 None None None"
  have s: "BankLoanOptimizer_solve (constant_engine StatusOptimal 20000000) ?b
      = Inr ([(''status'', PStr ''Optimal''),
              (''allocations'', PDict [(''Personal'', PNum 20000000), (''Car'', PNum 20000000),
                         (''Home'', PNum 20000000), (''Farm'', PNum 20000000),
                         (''Commercial'', PNum 20000000)]),
              (''total_allocated'', PNum 100000000),
              (''net_return'', PNum (lp_value (\<lambda>v. 20000000) (objective (bl_model_of ?b)))),
              (''roi_percentage'',
                 PNum (lp_value (\<lambda>v. 20000000) (objective (bl_model_of ?b)) / 100000000 * 100)),
              (''model'', PModel (bl_model_of ?b))],
             ?b\<lparr>bl_model := Some (bl_model_of ?b), bl_variables := Some (bl_new_variables ?b),
                 bl_solution := Some [(''status'', PStr ''Optimal''),
              (''allocations'', PDict [(''Personal'', PNum 20000000), (''Car'', PNum 20000000),
                         (''Home'', PNum 20000000), (''Farm'', PNum 20000000),
                         (''Commercial'', PNum 20000000)]),
              (''total_allocated'', PNum 100000000),
              (''net_return'', PNum (lp_value (\<lambda>v. 20000000) (objective (bl_model_of ?b)))),
              (''roi_percentage'',
                 PNum (lp_value (\<lambda>v. 20000000) (objective (bl_model_of ?b)) / 100000000 * 100)),
              (''model'', PModel (bl_model_of ?b))]\<rparr>)"
    by (simp add: bl_solve_fresh fresh_optimizers default_optimizers_fit constant_engine_def
        Let_def default_bank_fields upt_5 py_dictcomp_def)
  have c: "hd (constraints (bl_model_of ?b)) =
      \<lparr>con_expr = map (\<lambda>v. (v, 1)) (bl_new_variables ?b), con_operator = LpConstraintLE,
       con_rhs = 12000000, con_name = ''Total_Funds_Constraint''\<rparr>"
    by (simp add: bl_model_of_def Let_def default_bank_fields)
  have v: "lp_value (snd (constant_engine StatusOptimal 20000000 (bl_model_of ?b)))
        (map (\<lambda>v. (v, 1)) (bl_new_variables ?b)) = 100000000"
    by (simp add: lp_value_def constant_engine_def bl_new_variables_def default_bank_fields)
  show ?thesis
    unfolding s c
    by (simp add: solution_get_def v calculate_constraint_violations_def)
qed

subsection \<open>Inputs that no one validates\<close>

lemma bl_solve_status:
  assumes "bl_model self = None" and "bl_inputs_fit self"
  shows "\<exists>sol s. BankLoanOptimizer_solve eng self = Inr (sol, s)
     \<and> map_of sol ''status'' = Some (PStr (LpStatus (fst (eng (bl_model_of self)))))"
  unfolding bl_solve_fresh [OF assms(1)] using assms(2)
  by (cases "fst (eng (bl_model_of self)) = StatusOptimal") (simp_all add: Let_def bl_failure_def)

lemma pi_solve_status:
  assumes "pi_model self = None" and "pi_inputs_fit self"
  shows "\<exists>sol s. ProductionInventoryOptimizer_solve eng self = Inr (sol, s)
     \<and> map_of sol ''status'' = Some (PStr (LpStatus (fst (eng (pi_model_of self)))))"
  unfolding pi_solve_fresh [OF assms(1)] using assms(2)
  by (cases "fst (eng (pi_model_of self)) = StatusOptimal") (simp_all add: Let_def pi_failure_def)

lemma oil_solve_status:
  assumes "oil_model self = None" and "oil_inputs_fit self"
  shows "\<exists>sol s. OilRefiningOptimizer_solve eng self = Inr (sol, s)
     \<and> map_of sol ''status'' = Some (PStr (LpStatus (fst (eng (oil_model_of self)))))"
  unfolding oil_solve_fresh [OF assms(1)] using assms(2)
  by (cases "fst (eng (oil_model_of self)) = StatusOptimal") (simp_all add: Let_def oil_failure_def)

text \<open>
  C6 (as amended). No constructor validates its arguments or raises: capital, capacities
  and costs are stored as passed, negative or not. An input stops before the engine only
  when \<open>build_model\<close> cannot read an index or key it needs, and then \<open>solve\<close> raises that
  IndexError or KeyError from \<open>build_model\<close>: for the loan portfolio with fewer than five
  loan types or fewer interest rates or bad-debt ratios than loan types, for the
  production model with fewer production costs than demands, for the refinery with a
  product missing from the demand limits or profit margins. Every other input, whatever
  its lengths and signs, is built into a model and handed to the engine, whose status
  \<open>solve\<close> returns.
\<close>

theorem invalid_inputs_fail_only_in_build_model:
  "total_funds (BankLoanOptimizer_init funds rates ratios types) = funds
   \<and> storage_cost (ProductionInventoryOptimizer_init costs st dem) = st
   \<and> crude_capacity (OilRefiningOptimizer_init crude cracker octane limits margins) = crude
   \<and> cracker_capacity (OilRefiningOptimizer_init crude cracker octane limits margins) = cracker
   \<and> (\<not> bl_inputs_fit (BankLoanOptimizer_init funds rates ratios types)
      \<longrightarrow> BankLoanOptimizer_build_model (BankLoanOptimizer_init funds rates ratios types)
            = Inl IndexError
        \<and> BankLoanOptimizer_solve eng (BankLoanOptimizer_init funds rates ratios types)
            = Inl IndexError)
   \<and> (bl_inputs_fit (BankLoanOptimizer_init funds rates ratios types)
      \<longrightarrow> (\<exists>self' m sol s.
            BankLoanOptimizer_build_model (BankLoanOptimizer_init funds rates ratios types)
              = Inr self'
          \<and> bl_model self' = Some m
          \<and> BankLoanOptimizer_solve eng (BankLoanOptimizer_init funds rates ratios types)
              = Inr (sol, s)
          \<and> map_of sol ''status'' = Some (PStr (LpStatus (fst (eng m))))))
   \<and> (\<not> pi_inputs_fit (ProductionInventoryOptimizer_init costs st dem)
      \<longrightarrow> ProductionInventoryOptimizer_build_model (ProductionInventoryOptimizer_init costs st dem)
            = Inl IndexError
        \<and> ProductionInventoryOptimizer_solve eng (ProductionInventoryOptimizer_init costs st dem)
            = Inl IndexError)
   \<and> (pi_inputs_fit (ProductionInventoryOptimizer_init costs st dem)
      \<longrightarrow> (\<exists>self' m sol s.
            ProductionInventoryOptimizer_build_model (ProductionInventoryOptimizer_init costs st dem)
              = Inr self'
          \<and> pi_model self' = Some m
          \<and> ProductionInventoryOptimizer_solve eng (ProductionInventoryOptimizer_init costs st dem)
              = Inr (sol, s)
          \<and> map_of sol ''status'' = Some (PStr (LpStatus (fst (eng m))))))
   \<and> (\<not> oil_inputs_fit (OilRefiningOptimizer_init crude cracker octane limits margins)
      \<longrightarrow> OilRefiningOptimizer_build_model
              (OilRefiningOptimizer_init crude cracker octane limits margins) = Inl KeyError
        \<and> OilRefiningOptimizer_solve eng
              (OilRefiningOptimizer_init crude cracker octane limits margins) = Inl KeyError)
   \<and> (oil_inputs_fit (OilRefiningOptimizer_init crude cracker octane limits margins)
      \<longrightarrow> (\<exists>self' m sol s.
            OilRefiningOptimizer_build_model
              (OilRefiningOptimizer_init crude cracker octane limits margins) = Inr self'
          \<and> oil_model self' = Some m
          \<and> OilRefiningOptimizer_solve eng
              (OilRefiningOptimizer_init crude cracker octane limits margins) = Inr (sol, s)
          \<and> map_of sol ''status'' = Some (PStr (LpStatus (fst (eng m))))))"
proof (intro conjI impI)
  show "total_funds (BankLoanOptimizer_init funds rates ratios types) = funds"
    by (simp add: BankLoanOptimizer_init_def)
  show "storage_cost (ProductionInventoryOptimizer_init costs st dem) = st"
    by (simp add: ProductionInventoryOptimizer_init_def Let_def)
  show "crude_capacity (OilRefiningOptimizer_init crude cracker octane limits margins) = crude"
    by (simp add: OilRefiningOptimizer_init_def)
  show "cracker_capacity (OilRefiningOptimizer_init crude cracker octane limits margins) = cracker"
    by (simp add: OilRefiningOptimizer_init_def)
next
  let ?b = "BankLoanOptimizer_init funds rates ratios types"
  assume "\<not> bl_inputs_fit ?b"
  then show "BankLoanOptimizer_build_model ?b = Inl IndexError"
    and "BankLoanOptimizer_solve eng ?b = Inl IndexError"
    by (simp_all add: bl_build_model_eq bl_solve_fresh fresh_optimizers)
next
  let ?b = "BankLoanOptimizer_init funds rates ratios types"
  assume fit: "bl_inputs_fit ?b"
  from bl_solve_status [OF fresh_optimizers(1) fit, of eng] fit
  show "\<exists>self' m sol s. BankLoanOptimizer_build_model ?b = Inr self'
          \<and> bl_model self' = Some m
          \<and> BankLoanOptimizer_solve eng ?b = Inr (sol, s)
          \<and> map_of sol ''status'' = Some (PStr (LpStatus (fst (eng m))))"
    by (auto simp: bl_build_model_eq)
next
  let ?p = "ProductionInventoryOptimizer_init costs st dem"
  assume "\<not> pi_inputs_fit ?p"
  then show "ProductionInventoryOptimizer_build_model ?p = Inl IndexError"
    and "ProductionInventoryOptimizer_solve eng ?p = Inl IndexError"
    by (simp_all add: pi_build_model_eq pi_solve_fresh fresh_optimizers)
next
  let ?p = "ProductionInventoryOptimizer_init costs st dem"
  assume fit: "pi_inputs_fit ?p"
  from pi_solve_status [OF fresh_optimizers(2) fit, of eng] fit
  show "\<exists>self' m sol s. ProductionInventoryOptimizer_build_model ?p = Inr self'
          \<and> pi_model self' = Some m
          \<and> ProductionInventoryOptimizer_solve eng ?p = Inr (sol, s)
          \<and> map_of sol ''status'' = Some (PStr (LpStatus (fst (eng m))))"
    by (auto simp: pi_build_model_eq)
next
  let ?o = "OilRefiningOptimizer_init crude cracker octane limits margins"
  assume "\<not> oil_inputs_fit ?o"
  then show "OilRefiningOptimizer_build_model ?o = Inl KeyError"
    and "OilRefiningOptimizer_solve eng ?o = Inl KeyError"
    by (simp_all add: oil_build_model_eq oil_solve_fresh fresh_optimizers)
next
  let ?o = "OilRefiningOptimizer_init crude cracker octane limits margins"
  assume fit: "oil_inputs_fit ?o"
  from oil_solve_status [OF fresh_optimizers(3) fit, of eng] fit
  show "\<exists>self' m sol s. OilRefiningOptimizer_build_model ?o = Inr self'
          \<and> oil_model self' = Some m
          \<and> OilRefiningOptimizer_solve eng ?o = Inr (sol, s)
          \<and> map_of sol ''status'' = Some (PStr (LpStatus (fst (eng m))))"
    by (auto simp: oil_build_model_eq)
qed

lemma mismatched_fields:
  "total_funds mismatched_optimizer = - 1000"
  "interest_rates mismatched_optimizer = [0.1, 0.1, 0.1, 0.1, 0.1, 0.1]"
  "bad_debt_ratios mismatched_optimizer = [0.10, 0.07, 0.03, 0.05, 0.02]"
  "loan_types mismatched_optimizer = [''Personal'', ''Car'', ''Home'', ''Farm'', ''Commercial'']"
  "bl_model mismatched_optimizer = None"
  by (simp_all add: mismatched_optimizer_def BankLoanOptimizer_init_def py_or_def)

lemma mismatched_fit: "bl_inputs_fit mismatched_optimizer"
  by (simp add: bl_inputs_fit_def mismatched_fields)

text \<open>
  A loan portfolio with capital -1000 and six interest rates for five bad-debt ratios and
  five loan types, lengths that \<open>validate_equal_length\<close> rejects: the constructor
  raises nothing, the model is built, and \<open>solve\<close> returns whatever status the engine
  reports.
\<close>

theorem invalid_inputs_reach_engine_counterexample:
  "total_funds mismatched_optimizer = - 1000
   \<and> length (interest_rates mismatched_optimizer) = 6
   \<and> length (bad_debt_ratios mismatched_optimizer) = 5
   \<and> length (loan_types mismatched_optimizer) = 5
   \<and> validate_equal_length
        [interest_rates mismatched_optimizer, bad_debt_ratios mismatched_optimizer] None
       = (False, ''All lists must have equal length, got lengths: [6, 5]'')
   \<and> solution_get (BankLoanOptimizer_solve (constant_engine StatusInfeasible 0)
        mismatched_optimizer) ''status'' = Inr (Some (PStr ''Infeasible''))
   \<and> solution_get (BankLoanOptimizer_solve (constant_engine StatusOptimal 0)
        mismatched_optimizer) ''status'' = Inr (Some (PStr ''Optimal''))"
  by (simp add: mismatched_fields validate_equal_length_def repr_lengths_def str_nat.simps
      digit_char_def bl_solve_fresh mismatched_fit solution_get_def constant_engine_def Let_def
      bl_failure_def)


lemma fst_constant_engine [simp]: "fst (constant_engine status x m) = status"
  by (simp add: constant_engine_def)

theorem invalid_inputs_fail_only_in_build_model_witness:
  "BankLoanOptimizer_solve (constant_engine StatusOptimal 0)
       (BankLoanOptimizer_init 5000 None None (Some [''A'', ''B'', ''C''])) = Inl IndexError
   \<and> (\<exists>sol s. BankLoanOptimizer_solve (constant_engine StatusUnbounded 0)
         (BankLoanOptimizer_init (- 1000) (Some [0.1, 0.1, 0.1, 0.1, 0.1, 0.1]) None None)
           = Inr (sol, s)
         \<and> map_of sol ''status'' = Some (PStr ''Unbounded''))
   \<and> (\<exists>sol s. ProductionInventoryOptimizer_solve (constant_engine StatusInfeasible 0)
         (ProductionInventoryOptimizer_init (Some [10, 12, 14]) (- 2) (Some [100, 100]))
           = Inr (sol, s)
         \<and> map_of sol ''status'' = Some (PStr ''Infeasible''))
   \<and> (\<exists>sol s. OilRefiningOptimizer_solve (constant_engine StatusInfeasible 0)
         (OilRefiningOptimizer_init (- 1) (- 1) None None None) = Inr (sol, s)
         \<and> map_of sol ''status'' = Some (PStr ''Infeasible''))"
proof (intro conjI)
  let ?b = "BankLoanOptimizer_init 5000 None None (Some [''A'', ''B'', ''C''])"
  have nofit: "\<not> bl_inputs_fit ?b"
    by (simp add: bl_inputs_fit_def BankLoanOptimizer_init_def py_or_def)
  note t = invalid_inputs_fail_only_in_build_model
    [where funds = 5000 and rates = None and ratios = None
       and types = "Some [''A'', ''B'', ''C'']" and eng = "constant_engine StatusOptimal 0"]
  from mp [OF conjunct1 [OF conjunct2 [OF conjunct2 [OF conjunct2 [OF conjunct2 [OF t]]]]] nofit]
  show "BankLoanOptimizer_solve (constant_engine StatusOptimal 0) ?b = Inl IndexError"
    by (rule conjunct2)
next
  let ?b = "BankLoanOptimizer_init (- 1000) (Some [0.1, 0.1, 0.1, 0.1, 0.1, 0.1]) None None"
  have fit: "bl_inputs_fit ?b"
    by (simp add: bl_inputs_fit_def BankLoanOptimizer_init_def py_or_def)
  note t = invalid_inputs_fail_only_in_build_model
    [where funds = "- 1000" and rates = "Some [0.1, 0.1, 0.1, 0.1, 0.1, 0.1]" and ratios = None
       and types = None and eng = "constant_engine StatusUnbounded 0"]
  from mp [OF conjunct1 [OF conjunct2 [OF conjunct2 [OF conjunct2 [OF conjunct2
       [OF conjunct2 [OF t]]]]]] fit]
  show "\<exists>sol s. BankLoanOptimizer_solve (constant_engine StatusUnbounded 0) ?b = Inr (sol, s)
         \<and> map_of sol ''status'' = Some (PStr ''Unbounded'')"
    apply (elim exE conjE)
    subgoal for self' m sol s
      apply (rule exI [of _ sol])
      apply (rule exI [of _ s])
      apply simp
      done
    done
next
  let ?p = "ProductionInventoryOptimizer_init (Some [10, 12, 14]) (- 2) (Some [100, 100])"
  have fit: "pi_inputs_fit ?p"
    by (simp add: pi_inputs_fit_def ProductionInventoryOptimizer_init_def py_or_def Let_def)
  note t = invalid_inputs_fail_only_in_build_model
    [where costs = "Some [10, 12, 14]" and st = "- 2" and dem = "Some [100, 100]"
       and eng = "constant_engine StatusInfeasible 0"]
  from mp [OF conjunct1 [OF conjunct2 [OF conjunct2 [OF conjunct2 [OF conjunct2
       [OF conjunct2 [OF conjunct2 [OF conjunct2 [OF t]]]]]]]] fit]
  show "\<exists>sol s. ProductionInventoryOptimizer_solve (constant_engine StatusInfeasible 0) ?p
           = Inr (sol, s)
         \<and> map_of sol ''status'' = Some (PStr ''Infeasible'')"
    apply (elim exE conjE)
    subgoal for self' m sol s
      apply (rule exI [of _ sol])
      apply (rule exI [of _ s])
      apply simp
      done
    done
next
  let ?o = "OilRefiningOptimizer_init (- 1) (- 1) None None None"
  have fit: "oil_inputs_fit ?o" by (rule default_optimizers_fit)
  note t = invalid_inputs_fail_only_in_build_model
    [where crude = "- 1" and cracker = "- 1" and octane = None and limits = None
       and margins = None and eng = "constant_engine StatusInfeasible 0"]
  from mp [OF conjunct2 [OF conjunct2 [OF conjunct2 [OF conjunct2
       [OF conjunct2 [OF conjunct2 [OF conjunct2 [OF conjunct2 [OF conjunct2 [OF t]]]]]]]]] fit]
  show "\<exists>sol s. OilRefiningOptimizer_solve (constant_engine StatusInfeasible 0) ?o = Inr (sol, s)
         \<and> map_of sol ''status'' = Some (PStr ''Infeasible'')"
    apply (elim exE conjE)
    subgoal for self' m sol s
      apply (rule exI [of _ sol])
      apply (rule exI [of _ s])
      apply simp
      done
    done
qed

subsection \<open>Constraint checking\<close>

lemma bit_length_54: "bit_length 10808639105689191 = 54"
  by (simp add: bit_length.simps)

lemma bit_length_53: "bit_length 7205759403792795 = 53"
  by (simp add: bit_length.simps)

text \<open>
  C9 (as amended). For each of the three constraint types, every actual and required value
  and every tolerance that is not negative, \<open>calculate_constraint_violations\<close> returns a
  pair \<open>(satisfied, violation)\<close>; when its arithmetic is exact, \<open>satisfied\<close> is true
  exactly when the violation is at most the tolerance. On double-precision numbers the
  same holds for \<open>==\<close>, where both results come from the one difference.
\<close>

theorem calculate_constraint_violations_satisfied_iff:
  assumes "0 \<le> tolerance"
    and "constraint_type = ''<='' \<or> constraint_type = ''>='' \<or> constraint_type = ''==''"
  shows "(\<exists>satisfied violation.
           calculate_constraint_violations actual_value required_value constraint_type tolerance
             = Inr (satisfied, violation)
           \<and> (satisfied \<longleftrightarrow> violation \<le> tolerance))
         \<and> (\<exists>satisfied violation.
           calculate_constraint_violations_f64 a r ''=='' tol = Inr (satisfied, violation)
           \<and> (satisfied \<longleftrightarrow> f64_le violation tol))"
proof
  show "\<exists>satisfied violation.
           calculate_constraint_violations actual_value required_value constraint_type tolerance
             = Inr (satisfied, violation)
           \<and> (satisfied \<longleftrightarrow> violation \<le> tolerance)"
    using assms unfolding calculate_constraint_violations_def by auto
  show "\<exists>satisfied violation.
           calculate_constraint_violations_f64 a r ''=='' tol = Inr (satisfied, violation)
           \<and> (satisfied \<longleftrightarrow> f64_le violation tol)"
    by (simp add: calculate_constraint_violations_f64_def)
qed

theorem calculate_constraint_violations_satisfied_iff_witness:
  "calculate_constraint_violations 5 3 ''<='' 1 = Inr (False, 2)
   \<and> calculate_constraint_violations 3 5 ''>='' 2 = Inr (True, 2)
   \<and> calculate_constraint_violations 3 5 ''=='' 0 = Inr (False, 2)"
proof -
  have a: "calculate_constraint_violations 5 3 ''<='' 1 = Inr (False, 2)"
    using conjunct1 [OF calculate_constraint_violations_satisfied_iff [of 1 "''<=''" 5 3]]
    by (simp add: calculate_constraint_violations_def)
  have b: "calculate_constraint_violations 3 5 ''>='' 2 = Inr (True, 2)"
    using conjunct1 [OF calculate_constraint_violations_satisfied_iff [of 2 "''>=''" 3 5]]
    by (simp add: calculate_constraint_violations_def)
  have c: "calculate_constraint_violations 3 5 ''=='' 0 = Inr (False, 2)"
    using conjunct1 [OF calculate_constraint_violations_satisfied_iff [of 0 "''==''" 3 5]]
    by (simp add: calculate_constraint_violations_def)
  from a b c show ?thesis by simp
qed

text \<open>
  In double precision, with actual value 0.30000000000000004 (the sum \<open>0.1 + 0.2\<close>),
  required value 0.1, type \<open><=\<close> and tolerance 0.2: \<open>0.1 + 0.2\<close> rounds up to the actual
  value, so \<open>satisfied\<close> is true, while the difference 0.20000000000000004 is returned as
  the violation and exceeds the tolerance, which is not negative.
\<close>

theorem rounding_breaks_tolerance_counterexample:
  "calculate_constraint_violations_f64 (F64 1351079888211149 (- 52))
       (F64 3602879701896397 (- 55)) ''<='' (F64 3602879701896397 (- 54))
     = Inr (True, F64 7205759403792795 (- 55))
   \<and> \<not> f64_le (F64 7205759403792795 (- 55)) (F64 3602879701896397 (- 54))
   \<and> f64_le (F64 0 0) (F64 3602879701896397 (- 54))"
  by (simp add: calculate_constraint_violations_f64_def f64_le_def f64_add_def f64_sub_def
      f64_align_def f64_round_def f64_max0_def Let_def bit_length_54 bit_length_53)

end
